theory Spec2Isabelle
  imports Complex_Main "HOL-Library.AList" "HOL-Library.Sublist" "HOL-Library.Word"
begin

unbundle bit_operations_syntax

section \<open>Python values and exceptions\<close>

text \<open>
  The two modules under \<^verbatim>\<open>src/instrumentation\<close> are Python. An exception is a value:
  whether it is an instance of \<^verbatim>\<open>Exception\<close> (as opposed to a bare
  \<^verbatim>\<open>BaseException\<close> such as \<^verbatim>\<open>asyncio.CancelledError\<close> or
  \<^verbatim>\<open>KeyboardInterrupt\<close>), the name of its type (\<^verbatim>\<open>type(e).__name__\<close>)
  and its text (\<^verbatim>\<open>str(e)\<close>). A computation that may raise returns
  \<open>exn + 'a\<close>, \<open>Inl\<close> being the raised exception.
\<close>

datatype exn = Exn (exc_is_Exception: bool) (exc_type_name: string) (exc_str: string)

definition ValueError :: "string \<Rightarrow> exn" where
  "ValueError s = Exn True ''ValueError'' s"

definition KeyError :: "string \<Rightarrow> exn" where
  "KeyError s = Exn True ''KeyError'' s"

definition OverflowError :: "string \<Rightarrow> exn" where
  "OverflowError s = Exn True ''OverflowError'' s"

subsection \<open>\<^verbatim>\<open>str(n)\<close> on an integer and \<^verbatim>\<open>repr(s)\<close> on a string\<close>

fun str_nat :: "nat \<Rightarrow> string" where
  "str_nat n = (if n < 10 then [''0123456789'' ! n]
                else str_nat (n div 10) @ [''0123456789'' ! (n mod 10)])"

declare str_nat.simps [simp del]

definition str_int :: "int \<Rightarrow> string" where
  "str_int i = (if i < 0 then CHR ''-'' # str_nat (nat (- i)) else str_nat (nat i))"

text \<open>
  Strings here are latin-1 (header values are decoded so), one character a byte.
  \<^verbatim>\<open>repr\<close> puts the string in single quotes, or in double quotes when it holds a single
  quote and no double quote, and escapes the backslash, the quote in use, tab, newline,
  carriage return and, as \<^verbatim>\<open>\xNN\<close>, every character that is not printable (below 32,
  127 to 160, and 173).
\<close>

definition py_printable :: "char \<Rightarrow> bool" where
  "py_printable c =
     (let n = (of_char c :: nat) in \<not> (n < 32 \<or> (127 \<le> n \<and> n \<le> 160) \<or> n = 173))"

definition hex2 :: "nat \<Rightarrow> string" where
  "hex2 n = [''0123456789abcdef'' ! (n div 16), ''0123456789abcdef'' ! (n mod 16)]"

definition repr_char :: "char \<Rightarrow> char \<Rightarrow> string" where
  "repr_char q c =
     (if c = q \<or> c = CHR 0x5C then [CHR 0x5C, c]
      else if c = CHR 0x09 then [CHR 0x5C, CHR ''t'']
      else if c = CHR 0x0A then [CHR 0x5C, CHR ''n'']
      else if c = CHR 0x0D then [CHR 0x5C, CHR ''r'']
      else if py_printable c then [c]
      else [CHR 0x5C, CHR ''x''] @ hex2 (of_char c))"

definition py_repr :: "string \<Rightarrow> string" where
  "py_repr s =
     (let q = (if CHR 0x27 \<in> set s \<and> CHR 0x22 \<notin> set s then CHR 0x22 else CHR 0x27)
      in q # concat (map (repr_char q) s) @ [q])"

subsection \<open>\<^verbatim>\<open>int(s)\<close> on a string\<close>

text \<open>
  \<^verbatim>\<open>int(s)\<close> for a \<^verbatim>\<open>str\<close>, as CPython 3.11 parses it: leading whitespace is
  skipped (tab to carriage return, space, and \<^verbatim>\<open>\x85\<close> and \<^verbatim>\<open>\xa0\<close>, which are
  turned into spaces first; \<^verbatim>\<open>\x1c\<close> to \<^verbatim>\<open>\x1f\<close> are not skipped), one sign is
  taken, the literal must not start with an underscore, and digits are scanned with
  single underscores between them. A literal of more than 4300 digits
  (\<^verbatim>\<open>sys.int_info.default_max_str_digits\<close>) is refused as soon as it has been
  scanned; otherwise there must be a digit and nothing but whitespace after the
  literal. Both refusals are \<^verbatim>\<open>ValueError\<close>; the usual one quotes the first 200
  characters of \<^verbatim>\<open>repr(s)\<close>.
\<close>

definition py_isspace :: "char \<Rightarrow> bool" where
  "py_isspace c = ((of_char c :: nat) \<in> {9, 10, 11, 12, 13, 32, 133, 160})"

definition is_digit :: "char \<Rightarrow> bool" where
  "is_digit c = (c \<in> set ''0123456789'')"

definition digit_val :: "char \<Rightarrow> nat" where
  "digit_val c = of_char c - 48"

text \<open>
  The scan: whether the last character was an underscore, the number of digits so far
  and their value. It stops at the first character that is neither a digit nor an
  underscore and returns the rest; two underscores in a row, or an underscore as the
  last character scanned, are a syntax error (\<open>None\<close>).
\<close>

fun scan_digits :: "bool \<Rightarrow> nat \<Rightarrow> nat \<Rightarrow> string \<Rightarrow> (nat \<times> nat \<times> string) option" where
  "scan_digits prev_underscore digits acc [] =
     (if prev_underscore then None else Some (digits, acc, []))"
| "scan_digits prev_underscore digits acc (c # cs) =
     (if is_digit c then scan_digits False (Suc digits) (10 * acc + digit_val c) cs
      else if c = CHR ''_'' then
        (if prev_underscore then None else scan_digits True digits acc cs)
      else if prev_underscore then None
      else Some (digits, acc, c # cs))"

definition int_max_str_digits :: nat where
  "int_max_str_digits = 4300"

definition py_int :: "string \<Rightarrow> exn + int" where
  "py_int s =
     (let t = dropWhile py_isspace s;
          negative = (case t of [] \<Rightarrow> False | c # cs \<Rightarrow> c = CHR ''-'');
          u = (case t of
                 [] \<Rightarrow> []
               | c # cs \<Rightarrow> if c = CHR ''+'' \<or> c = CHR ''-'' then cs else t);
          invalid = Inl (ValueError
                      (''invalid literal for int() with base 10: '' @ take 200 (py_repr s)))
      in if (case u of [] \<Rightarrow> False | c # cs \<Rightarrow> c = CHR ''_'') then invalid
         else case scan_digits False 0 0 u of
                None \<Rightarrow> invalid
              | Some (digits, v, rest) \<Rightarrow>
                  if digits > int_max_str_digits
                  then Inl (ValueError
                         (''Exceeds the limit (4300 digits) for integer string conversion: ''
                          @ ''value has '' @ str_nat digits
                          @ '' digits; use sys.set_int_max_str_digits() to increase the limit''))
                  else if digits = 0 \<or> dropWhile py_isspace rest \<noteq> [] then invalid
                  else Inr (if negative then - int v else int v))"

subsection \<open>\<^verbatim>\<open>float(n)\<close> on an integer\<close>

text \<open>
  Adding an integer to a float converts it first, and the conversion raises
  \<^verbatim>\<open>OverflowError\<close> when the integer rounds to \<open>2 ^ 1024\<close> or beyond: from
  \<open>2 ^ 1024 - 2 ^ 970\<close> on, half way between the largest double and \<open>2 ^ 1024\<close>.
\<close>

definition float_overflow_bound :: int where
  "float_overflow_bound = 2 ^ 1024 - 2 ^ 970"

definition float_of_int :: "int \<Rightarrow> exn + rat" where
  "float_of_int n =
     (if \<bar>n\<bar> \<ge> float_overflow_bound
      then Inl (OverflowError ''int too large to convert to float'')
      else Inr (of_int n))"

section \<open>Environment and state\<close>

text \<open>
  Log levels of the \<^verbatim>\<open>logging\<close> module, with their numbers and names.
\<close>

datatype level = DEBUG | INFO | WARNING | ERROR | CRITICAL

fun levelno :: "level \<Rightarrow> nat" where
  "levelno DEBUG = 10"
| "levelno INFO = 20"
| "levelno WARNING = 30"
| "levelno ERROR = 40"
| "levelno CRITICAL = 50"

fun levelname :: "level \<Rightarrow> string" where
  "levelname DEBUG = ''DEBUG''"
| "levelname INFO = ''INFO''"
| "levelname WARNING = ''WARNING''"
| "levelname ERROR = ''ERROR''"
| "levelname CRITICAL = ''CRITICAL''"

text \<open>
  Values of log fields: \<^verbatim>\<open>None\<close>, a string, an integer, a float (every double is a
  rational number, and is kept as that number) or a dictionary of strings.
\<close>

datatype jval = JNull | JStr string | JInt int | JNum rat | JDict "(string \<times> string) list"

text \<open>
  What the console handler writes for one record: the ordered dictionary that the JSON
  formatter serialises, or the development line
  \<^verbatim>\<open>%(asctime)s - %(name)s - %(levelname)s - %(message)s\<close>, kept as its four parts
  and the exception text that \<^verbatim>\<open>logging.Formatter\<close> appends.
\<close>

datatype emitted =
    JsonLine "(string \<times> jval) list"
  | TextLine string string string string "string option"

text \<open>
  The module-level configuration read with \<^verbatim>\<open>os.getenv\<close> (both modules read
  \<^verbatim>\<open>SERVICE_NAME\<close> and \<^verbatim>\<open>ENVIRONMENT\<close> from the same variables), and what the
  process gets from outside: the \<open>n\<close>-th reading of \<^verbatim>\<open>time.time()\<close>, the \<open>n\<close>-th
  16 random bytes of \<^verbatim>\<open>os.urandom\<close>, the rendering of a time under a date format,
  the rendering of a traceback, and the arithmetic of floats that the source uses: the
  difference and the product of two floats and \<^verbatim>\<open>round(x, ndigits)\<close>, each with the
  rounding of the platform, about which nothing is assumed.
\<close>

record env =
  SERVICE_NAME :: string
  LOG_LEVEL :: level
  ENVIRONMENT :: string
  APP_VERSION :: string
  clock :: "nat \<Rightarrow> rat"
  urandom :: "nat \<Rightarrow> 128 word"
  strftime :: "string \<Rightarrow> rat \<Rightarrow> string"
  formatException :: "exn \<Rightarrow> string"
  float_sub :: "rat \<Rightarrow> rat \<Rightarrow> rat"
  float_mul :: "rat \<Rightarrow> rat \<Rightarrow> rat"
  float_round :: "rat \<Rightarrow> nat \<Rightarrow> rat"

subsection \<open>The metric registry\<close>

text \<open>
  Every series declared in \<^verbatim>\<open>python-metrics.py\<close>, in the order of the source. A
  series maps the tuple of its label values (each rendered with \<^verbatim>\<open>str\<close>, in the
  order of the label names) to its child: the value of a counter or gauge, the
  amounts observed into a histogram in the order they were observed (bucket counts,
  count and sum are functions of that list). Counter and gauge values are floats in the
  client library and exact numbers here; adding and subtracting 1 agree with the floats
  below \<open>2 ^ 53\<close>.
\<close>

type_synonym labels = "string list"
type_synonym scalar_series = "labels \<rightharpoonup> rat"
type_synonym histogram_series = "labels \<rightharpoonup> rat list"

record registry =
  http_requests_total :: scalar_series
  http_request_duration :: histogram_series
  http_request_size :: histogram_series
  http_response_size :: histogram_series
  active_requests :: scalar_series
  db_query_duration :: histogram_series
  db_connection_pool :: scalar_series
  vector_search_duration :: histogram_series
  vector_search_results :: histogram_series
  document_processing_duration :: histogram_series
  document_chunks :: histogram_series
  rag_query_duration :: histogram_series
  rag_queries_total :: scalar_series
  llm_api_calls :: scalar_series
  llm_api_duration :: histogram_series
  llm_tokens_used :: scalar_series

definition series_value :: "scalar_series \<Rightarrow> labels \<Rightarrow> rat" where
  "series_value m l = (case m l of None \<Rightarrow> 0 | Some v \<Rightarrow> v)"

definition observations :: "histogram_series \<Rightarrow> labels \<Rightarrow> rat list" where
  "observations m l = (case m l of None \<Rightarrow> [] | Some vs \<Rightarrow> vs)"

text \<open>\<^verbatim>\<open>series.labels(...).inc()\<close>, \<^verbatim>\<open>.dec()\<close> and \<^verbatim>\<open>.observe(v)\<close> for a float
  \<open>v\<close>: the child is created at 0 (or without observations) when the label values are
  new.\<close>

definition inc :: "scalar_series \<Rightarrow> labels \<Rightarrow> scalar_series" where
  "inc m l = m(l \<mapsto> series_value m l + 1)"

definition dec :: "scalar_series \<Rightarrow> labels \<Rightarrow> scalar_series" where
  "dec m l = m(l \<mapsto> series_value m l - 1)"

definition observe :: "histogram_series \<Rightarrow> labels \<Rightarrow> rat \<Rightarrow> histogram_series" where
  "observe m l v = m(l \<mapsto> observations m l @ [v])"

text \<open>
  \<^verbatim>\<open>series.labels(...).observe(n)\<close> for an integer \<open>n\<close>. \<^verbatim>\<open>labels\<close> creates the
  child; \<^verbatim>\<open>observe\<close> first adds the amount to the float sum of the child, which
  converts it and raises \<^verbatim>\<open>OverflowError\<close> for an integer beyond the floats, before
  any bucket is touched: the child is then there, and nothing has been observed.
\<close>

definition histogram_child :: "histogram_series \<Rightarrow> labels \<Rightarrow> histogram_series" where
  "histogram_child m l = m(l \<mapsto> observations m l)"

definition observe_int :: "histogram_series \<Rightarrow> labels \<Rightarrow> int \<Rightarrow> (exn + unit) \<times> histogram_series" where
  "observe_int m l n =
     (case float_of_int n of
        Inl e \<Rightarrow> (Inl e, histogram_child m l)
      | Inr v \<Rightarrow> (Inr (), observe m l v))"

subsection \<open>The state of the process\<close>

text \<open>
  The registry, what the console handler has written to \<^verbatim>\<open>sys.stdout\<close>, the context
  variable \<^verbatim>\<open>trace_id_var\<close> (default \<^verbatim>\<open>None\<close>) as the running task sees it, and
  how many readings of the clock and of the random source have been taken.
\<close>

record world =
  registry :: registry
  stdout :: "emitted list"
  trace_id_var :: "string option"
  ticks :: nat
  urandom_reads :: nat

definition time_time :: "env \<Rightarrow> world \<Rightarrow> rat \<times> world" where
  "time_time cfg w = (clock cfg (ticks w), w\<lparr>ticks := Suc (ticks w)\<rparr>)"

subsection \<open>Requests and responses\<close>

text \<open>
  The parts of Starlette's request and response that the middlewares read. Header names
  are case-insensitive: a header map is keyed by the lower-case name and holds the value
  that \<^verbatim>\<open>headers.get\<close> returns. \<open>scope_route\<close> is the path template of the route the
  router matched (\<^verbatim>\<open>request.scope["route"].path\<close>), if any; \<open>url_path\<close> is
  \<^verbatim>\<open>request.url.path\<close>, the path as requested.
\<close>

record request =
  req_method :: string
  url_path :: string
  scope_route :: "string option"
  query_params :: "(string \<times> string) list"
  client_host :: "string option"
  req_headers :: "string \<rightharpoonup> string"

record response =
  status_code :: int
  resp_headers :: "string \<rightharpoonup> string"

type_synonym 'a action = "world \<Rightarrow> (exn + 'a) \<times> world"

text \<open>\<^verbatim>\<open>int(headers.get("content-length", 0))\<close>\<close>

definition content_length :: "(string \<rightharpoonup> string) \<Rightarrow> exn + int" where
  "content_length h = (case h ''content-length'' of None \<Rightarrow> Inr 0 | Some s \<Rightarrow> py_int s)"

section \<open>\<^verbatim>\<open>MetricsMiddleware.dispatch\<close>\<close>

text \<open>
  The coroutine is cut at its one suspension point, \<^verbatim>\<open>await call_next(request)\<close>:
  \<open>MetricsMiddleware_entry\<close> is the code before it (it returns \<^verbatim>\<open>start_time\<close>),
  \<open>MetricsMiddleware_resume\<close> the code after it. The source has no \<^verbatim>\<open>try\<close>: an
  exception of \<^verbatim>\<open>int\<close>, of \<^verbatim>\<open>observe\<close> or of \<^verbatim>\<open>call_next\<close> leaves the
  function at once.
\<close>

definition MetricsMiddleware_entry :: "env \<Rightarrow> request \<Rightarrow> rat action" where
  "MetricsMiddleware_entry cfg request w =
     (let (start_time, w) = time_time cfg w;
          w = registry_update (active_requests_update (\<lambda>m. inc m [SERVICE_NAME cfg])) w
      in case content_length (req_headers request) of
           Inl e \<Rightarrow> (Inl e, w)
         | Inr request_size \<Rightarrow>
             if request_size > 0
             then (let (r, m) = observe_int (http_request_size (registry w))
                                  [req_method request, url_path request, SERVICE_NAME cfg]
                                  request_size;
                       w = registry_update (http_request_size_update (\<lambda>_. m)) w
                   in case r of
                        Inl e \<Rightarrow> (Inl e, w)
                      | Inr u \<Rightarrow> (Inr start_time, w))
             else (Inr start_time, w))"

definition MetricsMiddleware_resume ::
  "env \<Rightarrow> request \<Rightarrow> rat \<Rightarrow> response \<Rightarrow> response action" where
  "MetricsMiddleware_resume cfg request start_time response w =
     (let (now, w) = time_time cfg w;
          duration = float_sub cfg now start_time
      in case content_length (resp_headers response) of
           Inl e \<Rightarrow> (Inl e, w)
         | Inr response_size \<Rightarrow>
             (let l = [req_method request, url_path request,
                       str_int (status_code response), SERVICE_NAME cfg];
                  w = registry_update (http_requests_total_update (\<lambda>m. inc m l)) w;
                  w = registry_update (http_request_duration_update (\<lambda>m. observe m l duration)) w
              in if response_size > 0
                 then (let (r, m) = observe_int (http_response_size (registry w)) l response_size;
                           w = registry_update (http_response_size_update (\<lambda>_. m)) w
                       in case r of
                            Inl e \<Rightarrow> (Inl e, w)
                          | Inr u \<Rightarrow>
                              (Inr response,
                               registry_update
                                 (active_requests_update (\<lambda>m. dec m [SERVICE_NAME cfg])) w))
                 else (Inr response,
                       registry_update
                         (active_requests_update (\<lambda>m. dec m [SERVICE_NAME cfg])) w)))"

definition MetricsMiddleware_dispatch ::
  "env \<Rightarrow> request \<Rightarrow> (request \<Rightarrow> response action) \<Rightarrow> response action" where
  "MetricsMiddleware_dispatch cfg request call_next w =
     (case MetricsMiddleware_entry cfg request w of
        (Inl e, w1) \<Rightarrow> (Inl e, w1)
      | (Inr start_time, w1) \<Rightarrow>
          (case call_next request w1 of
             (Inl e, w2) \<Rightarrow> (Inl e, w2)
           | (Inr response, w2) \<Rightarrow> MetricsMiddleware_resume cfg request start_time response w2))"

section \<open>Trace context\<close>

text \<open>
  \<^verbatim>\<open>uuid.uuid4()\<close> takes 16 random bytes as a 128-bit number, sets the variant and the
  version bits, and \<^verbatim>\<open>str\<close> prints the 32 hexadecimal digits in groups of
  8, 4, 4, 4 and 12.
\<close>

definition uuid4 :: "128 word \<Rightarrow> 128 word" where
  "uuid4 r =
     (((r AND NOT (push_bit 48 0xc000)) OR push_bit 48 0x8000)
        AND NOT (push_bit 64 0xf000)) OR push_bit 76 4"

definition hex32 :: "128 word \<Rightarrow> string" where
  "hex32 x = map (\<lambda>i. ''0123456789abcdef'' ! unat (drop_bit (4 * (31 - i)) x AND 15)) [0..<32]"

definition uuid_str :: "128 word \<Rightarrow> string" where
  "uuid_str x =
     (let h = hex32 x
      in take 8 h @ ''-'' @ take 4 (drop 8 h) @ ''-'' @ take 4 (drop 12 h) @ ''-'' @
         take 4 (drop 16 h) @ ''-'' @ drop 20 h)"

definition generate_trace_id :: "env \<Rightarrow> world \<Rightarrow> string \<times> world" where
  "generate_trace_id cfg w =
     (uuid_str (uuid4 (urandom cfg (urandom_reads w))),
      w\<lparr>urandom_reads := Suc (urandom_reads w)\<rparr>)"

definition set_trace_id :: "string \<Rightarrow> world \<Rightarrow> world" where
  "set_trace_id trace_id w = w\<lparr>trace_id_var := Some trace_id\<rparr>"

definition get_trace_id :: "world \<Rightarrow> string option" where
  "get_trace_id w = trace_id_var w"

section \<open>The logger and its formatters\<close>

text \<open>
  A Python dictionary keeps its keys in insertion order; assigning to a key that is
  present keeps its place. \<open>AList.update\<close> does exactly that on an association list.
\<close>

type_synonym fields = "(string \<times> jval) list"

definition dict_update :: "('k \<times> 'v) list \<Rightarrow> ('k \<times> 'v) list \<Rightarrow> ('k \<times> 'v) list" where
  "dict_update d kvs = foldl (\<lambda>d kv. AList.update (fst kv) (snd kv) d) d kvs"

definition py_dict :: "('k \<times> 'v) list \<Rightarrow> ('k \<times> 'v) list" where
  "py_dict kvs = dict_update [] kvs"

text \<open>
  What a \<^verbatim>\<open>LogRecord\<close> carries for the two formatters: the logger's name, the level,
  the call site, the message, the creation time, the exception given with
  \<^verbatim>\<open>exc_info=True\<close>, and the entries of \<^verbatim>\<open>extra\<close>, which \<^verbatim>\<open>makeRecord\<close> stores
  as attributes of the record.
\<close>

record LogRecord =
  rec_name :: string
  rec_level :: level
  rec_filename :: string
  rec_lineno :: nat
  rec_funcName :: string
  rec_message :: string
  rec_created :: rat
  rec_exc_info :: "exn option"
  rec_extra :: fields

text \<open>
  The attributes every \<^verbatim>\<open>LogRecord\<close> has (in Python 3.11; 3.12 adds
  \<^verbatim>\<open>taskName\<close>), with \<^verbatim>\<open>message\<close> and \<^verbatim>\<open>asctime\<close>. \<^verbatim>\<open>Logger.makeRecord\<close>
  raises \<^verbatim>\<open>KeyError\<close> for an \<^verbatim>\<open>extra\<close> key among them, and python-json-logger's
  \<^verbatim>\<open>RESERVED_ATTRS\<close> lists the same names.
\<close>

definition LogRecord_attrs :: "string list" where
  "LogRecord_attrs =
     [''name'', ''msg'', ''args'', ''levelname'', ''levelno'', ''pathname'', ''filename'',
      ''module'', ''exc_info'', ''exc_text'', ''stack_info'', ''lineno'', ''funcName'',
      ''created'', ''msecs'', ''relativeCreated'', ''thread'', ''threadName'',
      ''processName'', ''process'', ''message'', ''asctime'']"

text \<open>
  The fields named by the format string
  \<^verbatim>\<open>%(timestamp)s %(level)s %(service)s %(message)s\<close> of the JSON formatter.
\<close>

definition required_fields :: "string list" where
  "required_fields = [''timestamp'', ''level'', ''service'', ''message'']"

text \<open>\<^verbatim>\<open>record.__dict__.get(field)\<close> for a required field: the message, or the entry
  of \<^verbatim>\<open>extra\<close> of that name, or \<^verbatim>\<open>None\<close>.\<close>

definition record_get :: "LogRecord \<Rightarrow> string \<Rightarrow> jval" where
  "record_get record field =
     (if field = ''message'' then JStr (rec_message record)
      else case map_of (rec_extra record) field of None \<Rightarrow> JNull | Some v \<Rightarrow> v)"

definition startswith_underscore :: "string \<Rightarrow> bool" where
  "startswith_underscore k = (case k of [] \<Rightarrow> False | c # _ \<Rightarrow> c = CHR ''_'')"

text \<open>
  \<^verbatim>\<open>merge_record_extra\<close> of python-json-logger copies into the target every attribute
  of the record whose key is neither reserved (the required fields and the attributes
  every record has) nor starts with an underscore: that leaves entries of \<^verbatim>\<open>extra\<close>.
\<close>

definition merge_record_extra :: "LogRecord \<Rightarrow> fields \<Rightarrow> fields" where
  "merge_record_extra record target =
     dict_update target
       (filter (\<lambda>kv. fst kv \<notin> set (required_fields @ LogRecord_attrs)
                      \<and> \<not> startswith_underscore (fst kv))
          (rec_extra record))"

text \<open>
  \<^verbatim>\<open>JsonFormatter.add_fields\<close> of python-json-logger, which the source calls through
  \<^verbatim>\<open>super()\<close>: the required fields, then \<^verbatim>\<open>message_dict\<close>, then the merge.
\<close>

definition jsonlogger_add_fields :: "LogRecord \<Rightarrow> fields \<Rightarrow> fields \<Rightarrow> fields" where
  "jsonlogger_add_fields record message_dict log_record =
     (let log_record = foldl (\<lambda>d f. AList.update f (record_get record f) d) log_record required_fields;
          log_record = dict_update log_record message_dict
      in merge_record_extra record log_record)"

text \<open>\<^verbatim>\<open>CustomJsonFormatter.add_fields\<close>; \<open>trace_id\<close> is \<^verbatim>\<open>trace_id_var.get()\<close>.\<close>

definition CustomJsonFormatter_add_fields ::
  "env \<Rightarrow> string option \<Rightarrow> LogRecord \<Rightarrow> fields \<Rightarrow> fields \<Rightarrow> fields" where
  "CustomJsonFormatter_add_fields cfg trace_id record message_dict log_record =
     (let log_record = jsonlogger_add_fields record message_dict log_record;
          log_record = AList.update ''timestamp''
            (JStr (strftime cfg ''%Y-%m-%dT%H:%M:%S.%fZ'' (rec_created record))) log_record;
          log_record = AList.update ''service'' (JStr (SERVICE_NAME cfg)) log_record;
          log_record = AList.update ''environment'' (JStr (ENVIRONMENT cfg)) log_record;
          log_record = AList.update ''version'' (JStr (APP_VERSION cfg)) log_record;
          log_record = (case trace_id of
                          None \<Rightarrow> log_record
                        | Some t \<Rightarrow> if t \<noteq> [] then AList.update ''trace_id'' (JStr t) log_record
                                    else log_record);
          log_record = AList.update ''level'' (JStr (levelname (rec_level record))) log_record;
          log_record = AList.update ''logger'' (JStr (rec_name record)) log_record;
          log_record = AList.update ''file'' (JStr (rec_filename record)) log_record;
          log_record = AList.update ''line'' (JInt (int (rec_lineno record))) log_record
      in AList.update ''function'' (JStr (rec_funcName record)) log_record)"

text \<open>
  The formatter chosen at import: \<^verbatim>\<open>logging.Formatter\<close> with the four-part line when
  \<^verbatim>\<open>ENVIRONMENT == "development"\<close>, \<^verbatim>\<open>CustomJsonFormatter\<close> otherwise.
  \<^verbatim>\<open>JsonFormatter.format\<close> puts the traceback of \<^verbatim>\<open>exc_info\<close> into
  \<^verbatim>\<open>message_dict\<close> and starts from an empty dictionary.
\<close>

definition formatter_format :: "env \<Rightarrow> string option \<Rightarrow> LogRecord \<Rightarrow> emitted" where
  "formatter_format cfg trace_id record =
     (if ENVIRONMENT cfg = ''development''
      then TextLine (strftime cfg ''%Y-%m-%d %H:%M:%S'' (rec_created record))
             (rec_name record) (levelname (rec_level record)) (rec_message record)
             (map_option (formatException cfg) (rec_exc_info record))
      else JsonLine (CustomJsonFormatter_add_fields cfg trace_id record
             (case rec_exc_info record of
                None \<Rightarrow> []
              | Some e \<Rightarrow> [(''exc_info'', JStr (formatException cfg e))]) []))"

text \<open>
  \<^verbatim>\<open>Logger.makeRecord\<close>: the record of a call, \<open>caller\<close> being the call site (file,
  line and function). An \<^verbatim>\<open>extra\<close> key that is an attribute of the record raises
  \<^verbatim>\<open>KeyError\<close>; the first such key in the dictionary's order is the one reported, and
  the text of a \<^verbatim>\<open>KeyError\<close> is the \<^verbatim>\<open>repr\<close> of its message.
\<close>

type_synonym caller = "string \<times> nat \<times> string"

definition LogRecord_new ::
  "env \<Rightarrow> caller \<Rightarrow> level \<Rightarrow> string \<Rightarrow> fields \<Rightarrow> exn option \<Rightarrow> rat \<Rightarrow> LogRecord" where
  "LogRecord_new cfg caller lvl msg extra exc_info created =
     \<lparr>rec_name = SERVICE_NAME cfg, rec_level = lvl,
      rec_filename = fst caller, rec_lineno = fst (snd caller),
      rec_funcName = snd (snd caller), rec_message = msg,
      rec_created = created, rec_exc_info = exc_info, rec_extra = extra\<rparr>"

definition makeRecord ::
  "env \<Rightarrow> caller \<Rightarrow> level \<Rightarrow> string \<Rightarrow> fields \<Rightarrow> exn option \<Rightarrow> rat \<Rightarrow> exn + LogRecord" where
  "makeRecord cfg caller lvl msg extra exc_info created =
     (case find (\<lambda>k. k \<in> set LogRecord_attrs) (map fst extra) of
        Some k \<Rightarrow> Inl (KeyError (py_repr
                   (''Attempt to overwrite '' @ py_repr k @ '' in LogRecord'')))
      | None \<Rightarrow> Inr (LogRecord_new cfg caller lvl msg extra exc_info created))"

text \<open>
  \<^verbatim>\<open>logger.log(level, msg, extra=..., exc_info=...)\<close> on the module's logger (named
  \<^verbatim>\<open>SERVICE_NAME\<close>, level \<^verbatim>\<open>LOG_LEVEL\<close>, one console handler, no propagation): nothing
  happens below the level; otherwise the record is created (which reads the clock) and
  the handler writes the formatted record, the formatter reading \<^verbatim>\<open>trace_id_var\<close>.
\<close>

definition Logger_log ::
  "env \<Rightarrow> caller \<Rightarrow> level \<Rightarrow> string \<Rightarrow> fields \<Rightarrow> exn option \<Rightarrow> unit action" where
  "Logger_log cfg caller lvl msg extra exc_info w =
     (if levelno lvl < levelno (LOG_LEVEL cfg) then (Inr (), w)
      else
        let (created, w) = time_time cfg w
        in case makeRecord cfg caller lvl msg extra exc_info created of
             Inl e \<Rightarrow> (Inl e, w)
           | Inr record \<Rightarrow>
               (Inr (), w\<lparr>stdout := stdout w @ [formatter_format cfg (trace_id_var w) record]\<rparr>))"

definition opt_str :: "string option \<Rightarrow> jval" where
  "opt_str v = (case v of None \<Rightarrow> JNull | Some s \<Rightarrow> JStr s)"

section \<open>\<^verbatim>\<open>LoggingMiddleware.dispatch\<close>\<close>

text \<open>
  Cut at \<^verbatim>\<open>await call_next(request)\<close> like the metrics middleware.
  \<open>LoggingMiddleware_entry\<close> returns \<^verbatim>\<open>trace_id\<close> and \<^verbatim>\<open>start_time\<close>, the two
  locals the code after the suspension point reads.
\<close>

definition LoggingMiddleware_entry :: "env \<Rightarrow> request \<Rightarrow> (string \<times> rat) action" where
  "LoggingMiddleware_entry cfg request w =
     (let (trace_id, w) =
            (case req_headers request ''x-trace-id'' of
               None \<Rightarrow> generate_trace_id cfg w
             | Some v \<Rightarrow> if v \<noteq> [] then (v, w) else generate_trace_id cfg w);
          w = set_trace_id trace_id w;
          (start_time, w) = time_time cfg w
      in case Logger_log cfg (''python-logging.py'', 162, ''dispatch'') INFO ''Incoming request''
                [(''method'', JStr (req_method request)),
                 (''path'', JStr (url_path request)),
                 (''query_params'', JDict (py_dict (query_params request))),
                 (''client_ip'', opt_str (client_host request)),
                 (''user_agent'', opt_str (req_headers request ''user-agent''))]
                None w of
           (Inl e, w) \<Rightarrow> (Inl e, w)
         | (Inr u, w) \<Rightarrow> (Inr (trace_id, start_time), w))"

definition LoggingMiddleware_resume ::
  "env \<Rightarrow> request \<Rightarrow> string \<Rightarrow> rat \<Rightarrow> response \<Rightarrow> response action" where
  "LoggingMiddleware_resume cfg request trace_id start_time response w =
     (let (now, w) = time_time cfg w;
          duration_ms = float_mul cfg (float_sub cfg now start_time) 1000;
          log_level = (if status_code response \<ge> 500 then ERROR
                       else if status_code response \<ge> 400 then WARNING
                       else INFO)
      in case Logger_log cfg (''python-logging.py'', 188, ''dispatch'') log_level ''Request completed''
                [(''method'', JStr (req_method request)),
                 (''path'', JStr (url_path request)),
                 (''status_code'', JInt (status_code response)),
                 (''duration_ms'', JNum (float_round cfg duration_ms 2))]
                None w of
           (Inl e, w) \<Rightarrow> (Inl e, w)
         | (Inr u, w) \<Rightarrow>
             (Inr (response\<lparr>resp_headers := (resp_headers response)(''x-trace-id'' \<mapsto> trace_id)\<rparr>), w))"

definition LoggingMiddleware_dispatch ::
  "env \<Rightarrow> request \<Rightarrow> (request \<Rightarrow> response action) \<Rightarrow> response action" where
  "LoggingMiddleware_dispatch cfg request call_next w =
     (case LoggingMiddleware_entry cfg request w of
        (Inl e, w1) \<Rightarrow> (Inl e, w1)
      | (Inr (trace_id, start_time), w1) \<Rightarrow>
          (case call_next request w1 of
             (Inl e, w2) \<Rightarrow> (Inl e, w2)
           | (Inr response, w2) \<Rightarrow>
               LoggingMiddleware_resume cfg request trace_id start_time response w2))"

section \<open>\<^verbatim>\<open>log_execution\<close>\<close>

text \<open>
  \<^verbatim>\<open>async_wrapper\<close> and \<^verbatim>\<open>sync_wrapper\<close> have the same body, one with
  \<^verbatim>\<open>await func(...)\<close>; they differ in the call sites of their three log calls.
  \<open>func\<close> is the wrapped call with its arguments. The \<^verbatim>\<open>try\<close> block holds the call
  and the "Completed" log; \<^verbatim>\<open>except Exception\<close> lets an exception that is not an
  \<^verbatim>\<open>Exception\<close> pass, and an exception raised in the handler replaces the one handled.
\<close>

definition wrapper_body ::
  "env \<Rightarrow> string \<Rightarrow> nat \<Rightarrow> nat \<Rightarrow> nat \<Rightarrow> string \<Rightarrow> fields \<Rightarrow> 'a action \<Rightarrow> 'a action" where
  "wrapper_body cfg fname l_start l_done l_fail operation default_context func w =
     (let (start, w) = time_time cfg w;
          ctx = dict_update default_context [(''operation'', JStr operation)]
      in case Logger_log cfg (''python-logging.py'', l_start, fname) DEBUG
                (''Starting '' @ operation) ctx None w of
           (Inl e, w) \<Rightarrow> (Inl e, w)
         | (Inr u, w) \<Rightarrow>
             (case (case func w of
                      (Inl e, w) \<Rightarrow> (Inl e, w)
                    | (Inr result, w) \<Rightarrow>
                        (let (now, w) = time_time cfg w;
                             duration_ms = float_mul cfg (float_sub cfg now start) 1000
                         in case Logger_log cfg (''python-logging.py'', l_done, fname) INFO
                                   (''Completed '' @ operation)
                                   (dict_update ctx
                                      [(''duration_ms'', JNum (float_round cfg duration_ms 2)),
                                       (''status'', JStr ''success'')])
                                   None w of
                              (Inl e, w) \<Rightarrow> (Inl e, w)
                            | (Inr u, w) \<Rightarrow> (Inr result, w))) of
                (Inr result, w) \<Rightarrow> (Inr result, w)
              | (Inl e, w) \<Rightarrow>
                  if \<not> exc_is_Exception e then (Inl e, w)
                  else
                    (let (now, w) = time_time cfg w;
                         duration_ms = float_mul cfg (float_sub cfg now start) 1000
                     in case Logger_log cfg (''python-logging.py'', l_fail, fname) ERROR
                               (''Failed '' @ operation)
                               (dict_update ctx
                                  [(''duration_ms'', JNum (float_round cfg duration_ms 2)),
                                   (''status'', JStr ''error''),
                                   (''error'', JStr (exc_str e)),
                                   (''error_type'', JStr (exc_type_name e))])
                               (Some e) w of
                          (Inl e', w) \<Rightarrow> (Inl e', w)
                        | (Inr u, w) \<Rightarrow> (Inl e, w))))"

definition async_wrapper :: "env \<Rightarrow> string \<Rightarrow> fields \<Rightarrow> 'a action \<Rightarrow> 'a action" where
  "async_wrapper cfg = wrapper_body cfg ''async_wrapper'' 225 231 241"

definition sync_wrapper :: "env \<Rightarrow> string \<Rightarrow> fields \<Rightarrow> 'a action \<Rightarrow> 'a action" where
  "sync_wrapper cfg = wrapper_body cfg ''sync_wrapper'' 260 266 276"

text \<open>\<open>is_coroutine\<close> is \<^verbatim>\<open>asyncio.iscoroutinefunction(func)\<close>.\<close>

definition log_execution ::
  "env \<Rightarrow> string \<Rightarrow> fields \<Rightarrow> bool \<Rightarrow> 'a action \<Rightarrow> 'a action" where
  "log_execution cfg operation default_context is_coroutine func =
     (if is_coroutine then async_wrapper cfg operation default_context func
      else sync_wrapper cfg operation default_context func)"

section \<open>\<^verbatim>\<open>Timer\<close> of the logging module\<close>

text \<open>
  \<^verbatim>\<open>__enter__\<close> returns the timer, whose \<^verbatim>\<open>start\<close> is kept here as the result.
  \<^verbatim>\<open>__exit__\<close> gets the exception of the block, if any, and returns \<^verbatim>\<open>None\<close>:
  the \<^verbatim>\<open>with\<close> statement then raises the block's exception again.
\<close>

definition Timer_enter :: "env \<Rightarrow> string \<Rightarrow> fields \<Rightarrow> rat action" where
  "Timer_enter cfg operation ctx w =
     (let (start, w) = time_time cfg w
      in case Logger_log cfg (''python-logging.py'', 320, ''__enter__'') DEBUG
                (''Starting '' @ operation) ctx None w of
           (Inl e, w) \<Rightarrow> (Inl e, w)
         | (Inr u, w) \<Rightarrow> (Inr start, w))"

definition Timer_exit :: "env \<Rightarrow> string \<Rightarrow> fields \<Rightarrow> rat \<Rightarrow> exn option \<Rightarrow> unit action" where
  "Timer_exit cfg operation ctx start exc w =
     (let (now, w) = time_time cfg w;
          duration_ms = float_mul cfg (float_sub cfg now start) 1000
      in case exc of
           None \<Rightarrow>
             Logger_log cfg (''python-logging.py'', 327, ''__exit__'') INFO
               (''Completed '' @ operation)
               (dict_update ctx
                  [(''duration_ms'', JNum (float_round cfg duration_ms 2)),
                   (''status'', JStr ''success'')])
               None w
         | Some e \<Rightarrow>
             Logger_log cfg (''python-logging.py'', 336, ''__exit__'') ERROR
               (''Failed '' @ operation)
               (dict_update ctx
                  [(''duration_ms'', JNum (float_round cfg duration_ms 2)),
                   (''status'', JStr ''error''),
                   (''error'', JStr (exc_str e)),
                   (''error_type'', JStr (exc_type_name e))])
               (Some e) w)"

text \<open>\<^verbatim>\<open>with Timer(operation, **ctx): block\<close>\<close>

definition with_Timer :: "env \<Rightarrow> string \<Rightarrow> fields \<Rightarrow> 'a action \<Rightarrow> 'a action" where
  "with_Timer cfg operation ctx block w =
     (case Timer_enter cfg operation ctx w of
        (Inl e, w) \<Rightarrow> (Inl e, w)
      | (Inr start, w) \<Rightarrow>
          (case block w of
             (Inr result, w) \<Rightarrow>
               (case Timer_exit cfg operation ctx start None w of
                  (Inl e', w) \<Rightarrow> (Inl e', w)
                | (Inr u, w) \<Rightarrow> (Inr result, w))
           | (Inl e, w) \<Rightarrow>
               (case Timer_exit cfg operation ctx start (Some e) w of
                  (Inl e', w) \<Rightarrow> (Inl e', w)
                | (Inr u, w) \<Rightarrow> (Inl e, w))))"

section \<open>Reading what was written\<close>

text \<open>
  The level and the message of a written record, in either format, and a field of a JSON
  record by its key (the development line has no named fields).
\<close>

fun emitted_level :: "emitted \<Rightarrow> jval option" where
  "emitted_level (JsonLine d) = map_of d ''level''"
| "emitted_level (TextLine asctime name lvl msg exc) = Some (JStr lvl)"

fun emitted_message :: "emitted \<Rightarrow> jval option" where
  "emitted_message (JsonLine d) = map_of d ''message''"
| "emitted_message (TextLine asctime name lvl msg exc) = Some (JStr msg)"

fun emitted_field :: "emitted \<Rightarrow> string \<Rightarrow> jval option" where
  "emitted_field (JsonLine d) k = map_of d k"
| "emitted_field (TextLine asctime name lvl msg exc) k = None"

section \<open>Sample inputs\<close>

text \<open>
  An empty registry and a fresh process, the default configuration of the source
  (\<^verbatim>\<open>pluggedin-service\<close>, \<^verbatim>\<open>INFO\<close>, \<^verbatim>\<open>production\<close>, \<^verbatim>\<open>1.0.0\<close>) with a clock
  that advances an eighth of a second at every reading (on such readings and their
  differences in milliseconds the float operations are exact, and so they are here),
  and a request for \<^verbatim>\<open>/api/users/42\<close> that the router matches to the route
  \<^verbatim>\<open>/api/users/{id}\<close>. \<open>oversized\<close> is a \<^verbatim>\<open>content-length\<close> value of 401 digits,
  \<open>cancelled\<close> an \<^verbatim>\<open>asyncio.CancelledError()\<close>, which is a \<^verbatim>\<open>BaseException\<close>
  and not an \<^verbatim>\<open>Exception\<close>.
\<close>

definition registry0 :: registry where
  "registry0 =
     \<lparr>http_requests_total = Map.empty, http_request_duration = Map.empty,
      http_request_size = Map.empty, http_response_size = Map.empty,
      active_requests = Map.empty, db_query_duration = Map.empty,
      db_connection_pool = Map.empty, vector_search_duration = Map.empty,
      vector_search_results = Map.empty, document_processing_duration = Map.empty,
      document_chunks = Map.empty, rag_query_duration = Map.empty,
      rag_queries_total = Map.empty, llm_api_calls = Map.empty,
      llm_api_duration = Map.empty, llm_tokens_used = Map.empty\<rparr>"

definition world0 :: world where
  "world0 = \<lparr>registry = registry0, stdout = [], trace_id_var = None, ticks = 0,
             urandom_reads = 0\<rparr>"

definition env0 :: env where
  "env0 = \<lparr>SERVICE_NAME = ''pluggedin-service'', LOG_LEVEL = INFO,
           ENVIRONMENT = ''production'', APP_VERSION = ''1.0.0'',
           clock = (\<lambda>n. of_nat n / 8), urandom = (\<lambda>n. 0),
           strftime = (\<lambda>fmt t. fmt), formatException = exc_type_name,
           float_sub = (\<lambda>a b. a - b), float_mul = (\<lambda>a b. a * b),
           float_round = (\<lambda>x ndigits. x)\<rparr>"

definition request0 :: request where
  "request0 = \<lparr>req_method = ''GET'', url_path = ''/api/users/42'',
               scope_route = Some ''/api/users/{id}'', query_params = [],
               client_host = None, req_headers = Map.empty\<rparr>"

definition ok_response :: response where
  "ok_response = \<lparr>status_code = 200, resp_headers = Map.empty\<rparr>"

definition boom :: exn where
  "boom = Exn True ''RuntimeError'' ''boom''"

definition cancelled :: exn where
  "cancelled = Exn False ''CancelledError'' []"

definition unavailable :: response where
  "unavailable = \<lparr>status_code = 503, resp_headers = Map.empty\<rparr>"

definition traced_request :: request where
  "traced_request = request0\<lparr>req_headers := [''x-trace-id'' \<mapsto> ''abc-123'']\<rparr>"

definition fails :: "exn \<Rightarrow> 'a action" where
  "fails e w = (Inl e, w)"

definition oversized :: string where
  "oversized = CHR ''1'' # replicate 400 CHR ''0''"

definition returns :: "response \<Rightarrow> request \<Rightarrow> response action" where
  "returns response request w = (Inr response, w)"

definition raises :: "exn \<Rightarrow> request \<Rightarrow> response action" where
  "raises e request w = (Inl e, w)"

section \<open>Properties of the metrics middleware\<close>

lemma observe_neq: "observe m l v \<noteq> m"
proof
  assume "observe m l v = m"
  then have "observe m l v l = m l" by simp
  then show False
    by (cases "m l") (simp_all add: observe_def observations_def)
qed

lemma inc_value: "series_value (inc m l) l = series_value m l + 1"
  by (simp add: inc_def series_value_def)

lemma dec_value: "series_value (dec m l) l = series_value m l - 1"
  by (simp add: dec_def series_value_def)

lemma observations_observe:
  "observations (observe m l v) l' = observations m l' @ (if l' = l then [v] else [])"
  by (simp add: observe_def observations_def)

lemma observations_histogram_child:
  "observations (histogram_child m l) l' = observations m l'"
  by (simp add: histogram_child_def observations_def)

lemma observe_int_eq:
  "observe_int m l n =
     (if \<bar>n\<bar> < float_overflow_bound then (Inr (), observe m l (of_int n))
      else (Inl (OverflowError ''int too large to convert to float''), histogram_child m l))"
  by (simp add: observe_int_def float_of_int_def not_le)

lemma entry_active_requests:
  "active_requests (registry (snd (MetricsMiddleware_entry cfg request w))) =
     inc (active_requests (registry w)) [SERVICE_NAME cfg]"
  by (simp add: MetricsMiddleware_entry_def time_time_def Let_def observe_int_eq
      split: sum.split)

lemma resume_active_requests:
  "content_length (resp_headers response) = Inr k \<Longrightarrow> k < float_overflow_bound \<Longrightarrow>
   active_requests (registry (snd (MetricsMiddleware_resume cfg request start_time response w))) =
     dec (active_requests (registry w)) [SERVICE_NAME cfg]"
  by (simp add: MetricsMiddleware_resume_def time_time_def Let_def observe_int_eq)

lemma py_int_abc:
  "py_int ''abc'' =
     Inl (ValueError (''invalid literal for int() with base 10: '' @ [CHR 0x27] @ ''abc'' @ [CHR 0x27]))"
  by (simp add: py_int_def py_isspace_def is_digit_def py_repr_def repr_char_def
      py_printable_def Let_def)

lemma str_int_200: "str_int 200 = ''200''"
  by (simp add: str_int_def str_nat.simps)

lemma scan_zeros:
  "scan_digits False d acc (replicate n CHR ''0'') = Some (d + n, acc * 10 ^ n, [])"
  by (induction n arbitrary: d acc) (simp_all add: is_digit_def digit_val_def)

lemma py_int_oversized: "py_int oversized = Inr (10 ^ 400)"
proof -
  have "scan_digits False 0 0 oversized = Some (401, 10 ^ 400, [])"
    unfolding oversized_def using scan_zeros [of 1 1 400]
    by (simp add: is_digit_def digit_val_def)
  then show ?thesis
    by (simp add: py_int_def py_isspace_def oversized_def int_max_str_digits_def)
qed

lemma oversized_overflows: "float_overflow_bound \<le> (10 :: int) ^ 400"
  by (simp add: float_overflow_bound_def)

text \<open>
  On the path the source was written for (both \<^verbatim>\<open>content-length\<close> values parse to
  numbers that a float can hold, the handler returns and leaves the gauge alone) the
  gauge is back at its value.
\<close>

lemma gauge_restored_on_return:
  assumes "MetricsMiddleware_entry cfg request w = (Inr start_time, w1)"
    and "call_next request w1 = (Inr response, w2)"
    and "active_requests (registry w2) = active_requests (registry w1)"
    and "content_length (resp_headers response) = Inr k"
    and "k < float_overflow_bound"
  shows "series_value (active_requests (registry (snd
           (MetricsMiddleware_dispatch cfg request call_next w)))) [SERVICE_NAME cfg] =
         series_value (active_requests (registry w)) [SERVICE_NAME cfg]"
proof -
  have "active_requests (registry w1) = inc (active_requests (registry w)) [SERVICE_NAME cfg]"
    using entry_active_requests [of cfg request w] assms(1) by simp
  moreover have "snd (MetricsMiddleware_dispatch cfg request call_next w) =
      snd (MetricsMiddleware_resume cfg request start_time response w2)"
    using assms(1,2) by (simp add: MetricsMiddleware_dispatch_def)
  ultimately show ?thesis
    using resume_active_requests [OF assms(4,5), of cfg request start_time w2] assms(3)
    by (simp add: inc_value dec_value)
qed

text \<open>
  C1 (the active-requests gauge returns to its value after every request, also when the
  downstream handler raises). The code does not do this: \<^verbatim>\<open>dec()\<close> is the last
  statement before \<^verbatim>\<open>return\<close> and no \<^verbatim>\<open>finally\<close> guards it. For every
  configuration, request and state, when the handler raises \<open>e\<close> (and touches nothing),
  the gauge of the service ends one above its value before the request.
\<close>

theorem C1_gauge_not_restored_when_downstream_raises:
  "series_value (active_requests (registry (snd
      (MetricsMiddleware_dispatch cfg request (raises e) w)))) [SERVICE_NAME cfg] =
   series_value (active_requests (registry w)) [SERVICE_NAME cfg] + 1"
proof -
  obtain r w1 where en: "MetricsMiddleware_entry cfg request w = (r, w1)"
    by (cases "MetricsMiddleware_entry cfg request w")
  have g: "active_requests (registry w1) = inc (active_requests (registry w)) [SERVICE_NAME cfg]"
    using entry_active_requests [of cfg request w] en by simp
  have "snd (MetricsMiddleware_dispatch cfg request (raises e) w) = w1"
    using en by (cases r) (simp_all add: MetricsMiddleware_dispatch_def raises_def)
  then show ?thesis using g by (simp add: inc_value)
qed

text \<open>
  C4 (the endpoint label is the matched route template, not the raw path), refuted: for
  \<^verbatim>\<open>GET /api/users/42\<close>, matched by the route \<^verbatim>\<open>/api/users/{id}\<close> and answered with
  200, the request counter has no child under the template and the child under the raw
  path is at 1.
\<close>

theorem C4_label_is_not_route_template:
  "scope_route request0 = Some ''/api/users/{id}''
   \<and> url_path request0 = ''/api/users/42''
   \<and> http_requests_total (registry (snd
         (MetricsMiddleware_dispatch env0 request0 (returns ok_response) world0)))
         [''GET'', ''/api/users/{id}'', ''200'', ''pluggedin-service''] = None
   \<and> http_requests_total (registry (snd
         (MetricsMiddleware_dispatch env0 request0 (returns ok_response) world0)))
         [''GET'', ''/api/users/42'', ''200'', ''pluggedin-service''] = Some 1"
  by (simp add: MetricsMiddleware_dispatch_def MetricsMiddleware_entry_def
      MetricsMiddleware_resume_def time_time_def content_length_def returns_def
      env0_def request0_def world0_def registry0_def ok_response_def str_int_200
      inc_def dec_def observe_def observations_def series_value_def Let_def)

text \<open>
  C4 as amended: the endpoint label on the request-size, request-count, duration and
  response-size series is \<^verbatim>\<open>request.url.path\<close>, the path as requested, and the matched
  route has no effect on what the middleware does. (The two \<^verbatim>\<open>content-length\<close> values
  are taken to parse; C5 is about the other case. A size that no float can hold still
  selects the child of the raw path with \<^verbatim>\<open>labels\<close>, and \<^verbatim>\<open>observe\<close> then raises.)
\<close>

theorem C4_endpoint_label_is_raw_path:
  assumes "content_length (req_headers request) = Inr n"
    and "content_length (resp_headers response) = Inr k"
  shows "MetricsMiddleware_entry cfg (request\<lparr>scope_route := r\<rparr>) w =
           MetricsMiddleware_entry cfg request w
    \<and> MetricsMiddleware_resume cfg (request\<lparr>scope_route := r\<rparr>) start_time response w2 =
           MetricsMiddleware_resume cfg request start_time response w2
    \<and> http_request_size (registry (snd (MetricsMiddleware_entry cfg request w))) =
         (if 0 < n
          then if n < float_overflow_bound
               then observe (http_request_size (registry w))
                      [req_method request, url_path request, SERVICE_NAME cfg] (of_int n)
               else histogram_child (http_request_size (registry w))
                      [req_method request, url_path request, SERVICE_NAME cfg]
          else http_request_size (registry w))
    \<and> http_requests_total (registry (snd (MetricsMiddleware_resume cfg request start_time response w2))) =
         inc (http_requests_total (registry w2))
           [req_method request, url_path request, str_int (status_code response), SERVICE_NAME cfg]
    \<and> http_request_duration (registry (snd (MetricsMiddleware_resume cfg request start_time response w2))) =
         observe (http_request_duration (registry w2))
           [req_method request, url_path request, str_int (status_code response), SERVICE_NAME cfg]
           (float_sub cfg (clock cfg (ticks w2)) start_time)
    \<and> http_response_size (registry (snd (MetricsMiddleware_resume cfg request start_time response w2))) =
         (if 0 < k
          then if k < float_overflow_bound
               then observe (http_response_size (registry w2))
                      [req_method request, url_path request, str_int (status_code response),
                       SERVICE_NAME cfg] (of_int k)
               else histogram_child (http_response_size (registry w2))
                      [req_method request, url_path request, str_int (status_code response),
                       SERVICE_NAME cfg]
          else http_response_size (registry w2))"
  using assms
  by (simp add: MetricsMiddleware_entry_def MetricsMiddleware_resume_def time_time_def Let_def
      observe_int_eq)

theorem C4_endpoint_label_is_raw_path_witness:
  "content_length (req_headers request0) = Inr 0
   \<and> content_length (resp_headers ok_response) = Inr 0
   \<and> MetricsMiddleware_entry env0 (request0\<lparr>scope_route := None\<rparr>) world0 =
        MetricsMiddleware_entry env0 request0 world0
   \<and> http_requests_total (registry (snd (MetricsMiddleware_resume env0 request0 0 ok_response world0))) =
        inc (http_requests_total (registry world0))
          [''GET'', ''/api/users/42'', ''200'', ''pluggedin-service'']"
proof -
  have a: "content_length (req_headers request0) = Inr 0"
    by (simp add: content_length_def request0_def)
  have b: "content_length (resp_headers ok_response) = Inr 0"
    by (simp add: content_length_def ok_response_def)
  have l: "[req_method request0, url_path request0, str_int (status_code ok_response),
            SERVICE_NAME env0] = [''GET'', ''/api/users/42'', ''200'', ''pluggedin-service'']"
    by (simp add: request0_def ok_response_def env0_def str_int_200)
  from C4_endpoint_label_is_raw_path [OF a b, of env0 None world0 0 world0] a b l
  show ?thesis by simp
qed

text \<open>
  C5 (the middleware never raises an exception of its own, also for a malformed
  \<^verbatim>\<open>content-length\<close>). The code does raise: \<^verbatim>\<open>int("abc")\<close> is a \<^verbatim>\<open>ValueError\<close>.
  With \<^verbatim>\<open>content-length: abc\<close> on the request the middleware raises before the handler
  is called, whatever the handler is; with it on the response, a handler that returned
  normally is turned into a raised \<^verbatim>\<open>ValueError\<close>.
\<close>

theorem C5_malformed_content_length_raises:
  "fst (MetricsMiddleware_dispatch cfg
          (request\<lparr>req_headers := (req_headers request)(''content-length'' \<mapsto> ''abc'')\<rparr>)
          call_next w) =
     Inl (ValueError (''invalid literal for int() with base 10: '' @ [CHR 0x27] @ ''abc'' @ [CHR 0x27]))
   \<and> fst (MetricsMiddleware_dispatch cfg (request\<lparr>req_headers := Map.empty\<rparr>)
          (returns (response\<lparr>resp_headers :=
             (resp_headers response)(''content-length'' \<mapsto> ''abc'')\<rparr>)) w) =
     Inl (ValueError (''invalid literal for int() with base 10: '' @ [CHR 0x27] @ ''abc'' @ [CHR 0x27]))"
  by (simp add: MetricsMiddleware_dispatch_def MetricsMiddleware_entry_def
      MetricsMiddleware_resume_def time_time_def content_length_def py_int_abc returns_def)

text \<open>
  What the two halves of \<^verbatim>\<open>dispatch\<close> do to the size histograms, by the header value:
  nothing without the header, nothing when \<^verbatim>\<open>int\<close> raises or gives 0 or less, one
  observation of the value when it is above 0 and a float can hold it, and the labelled
  child with no observation when it is above 0 and no float can hold it.
\<close>

lemma entry_request_size:
  "http_request_size (registry (snd (MetricsMiddleware_entry cfg request w))) =
     (case req_headers request ''content-length'' of
        None \<Rightarrow> http_request_size (registry w)
      | Some s \<Rightarrow>
          (case py_int s of
             Inl e \<Rightarrow> http_request_size (registry w)
           | Inr n \<Rightarrow>
               if 0 < n
               then if n < float_overflow_bound
                    then observe (http_request_size (registry w))
                           [req_method request, url_path request, SERVICE_NAME cfg] (of_int n)
                    else histogram_child (http_request_size (registry w))
                           [req_method request, url_path request, SERVICE_NAME cfg]
               else http_request_size (registry w)))
   \<and> http_response_size (registry (snd (MetricsMiddleware_entry cfg request w))) =
       http_response_size (registry w)"
  by (simp add: MetricsMiddleware_entry_def time_time_def content_length_def Let_def
      observe_int_eq split: sum.split option.split)

lemma resume_response_size:
  "http_response_size (registry (snd (MetricsMiddleware_resume cfg request start_time response w))) =
     (case resp_headers response ''content-length'' of
        None \<Rightarrow> http_response_size (registry w)
      | Some s \<Rightarrow>
          (case py_int s of
             Inl e \<Rightarrow> http_response_size (registry w)
           | Inr n \<Rightarrow>
               if 0 < n
               then if n < float_overflow_bound
                    then observe (http_response_size (registry w))
                           [req_method request, url_path request,
                            str_int (status_code response), SERVICE_NAME cfg] (of_int n)
                    else histogram_child (http_response_size (registry w))
                           [req_method request, url_path request,
                            str_int (status_code response), SERVICE_NAME cfg]
               else http_response_size (registry w)))
   \<and> http_request_size (registry (snd (MetricsMiddleware_resume cfg request start_time response w))) =
       http_request_size (registry w)"
  by (simp add: MetricsMiddleware_resume_def time_time_def content_length_def Let_def
      observe_int_eq split: sum.split option.split)

lemma request_overflow:
  assumes "content_length (req_headers request) = Inr n"
    and "0 < n" and "float_overflow_bound \<le> n"
  shows "fst (MetricsMiddleware_dispatch cfg request call_next w) =
           Inl (OverflowError ''int too large to convert to float'')
       \<and> observations (http_request_size (registry (snd
             (MetricsMiddleware_dispatch cfg request call_next w)))) l =
           observations (http_request_size (registry w)) l"
  using assms
  by (simp add: MetricsMiddleware_dispatch_def MetricsMiddleware_entry_def time_time_def
      Let_def observe_int_eq observations_histogram_child)

lemma response_overflow:
  assumes "content_length (req_headers request) = Inr 0"
    and "content_length (resp_headers response) = Inr n"
    and "0 < n" and "float_overflow_bound \<le> n"
  shows "fst (MetricsMiddleware_dispatch cfg request (returns response) w) =
           Inl (OverflowError ''int too large to convert to float'')
       \<and> observations (http_response_size (registry (snd
             (MetricsMiddleware_dispatch cfg request (returns response) w)))) l =
           observations (http_response_size (registry w)) l"
  using assms
  by (simp add: MetricsMiddleware_dispatch_def MetricsMiddleware_entry_def
      MetricsMiddleware_resume_def returns_def time_time_def
      Let_def observe_int_eq observations_histogram_child)

text \<open>
  C10 (each size histogram receives an observation exactly when the
  \<^verbatim>\<open>content-length\<close> parses to a value above 0). The code does not do this for a value
  that no float can hold. The header value \<open>oversized\<close>, a 1 followed by 400 zeros,
  parses: \<^verbatim>\<open>int\<close> returns \<open>10 ^ 400\<close>, which is above 0. The test
  \<^verbatim>\<open>request_size > 0\<close> passes, \<^verbatim>\<open>observe\<close> converts its argument to a float, and
  that conversion raises \<^verbatim>\<open>OverflowError\<close>. So for every configuration, request,
  handler and state, with this value on the request the middleware raises and the
  request-size histogram has, under every label, the observations it had; and with this
  value on the response of a handler that returned, the middleware raises and the
  response-size histogram has the observations it had.
\<close>

theorem C10_oversized_content_length_is_not_observed:
  "content_length [''content-length'' \<mapsto> oversized] = Inr (10 ^ 400)
   \<and> fst (MetricsMiddleware_dispatch cfg
            (request\<lparr>req_headers := [''content-length'' \<mapsto> oversized]\<rparr>) call_next w) =
       Inl (OverflowError ''int too large to convert to float'')
   \<and> observations (http_request_size (registry (snd (MetricsMiddleware_dispatch cfg
            (request\<lparr>req_headers := [''content-length'' \<mapsto> oversized]\<rparr>) call_next w)))) l =
       observations (http_request_size (registry w)) l
   \<and> fst (MetricsMiddleware_dispatch cfg (request\<lparr>req_headers := Map.empty\<rparr>)
            (returns (response\<lparr>resp_headers := [''content-length'' \<mapsto> oversized]\<rparr>)) w) =
       Inl (OverflowError ''int too large to convert to float'')
   \<and> observations (http_response_size (registry (snd (MetricsMiddleware_dispatch cfg
            (request\<lparr>req_headers := Map.empty\<rparr>)
            (returns (response\<lparr>resp_headers := [''content-length'' \<mapsto> oversized]\<rparr>)) w)))) l =
       observations (http_response_size (registry w)) l"
proof -
  have p: "0 < (10 :: int) ^ 400" by simp
  have c: "content_length [''content-length'' \<mapsto> oversized] = Inr (10 ^ 400)"
    by (simp only: content_length_def fun_upd_same option.case py_int_oversized)
  have rq: "content_length (req_headers (request\<lparr>req_headers := [''content-length'' \<mapsto> oversized]\<rparr>)) =
        Inr (10 ^ 400)"
  proof -
    have "req_headers (request\<lparr>req_headers := [''content-length'' \<mapsto> oversized]\<rparr>) =
          [''content-length'' \<mapsto> oversized]" by simp
    then show ?thesis using c by (simp only:)
  qed
  have rs: "content_length (resp_headers (response\<lparr>resp_headers := [''content-length'' \<mapsto> oversized]\<rparr>)) =
        Inr (10 ^ 400)"
  proof -
    have "resp_headers (response\<lparr>resp_headers := [''content-length'' \<mapsto> oversized]\<rparr>) =
          [''content-length'' \<mapsto> oversized]" by simp
    then show ?thesis using c by (simp only:)
  qed
  have e: "content_length (req_headers (request\<lparr>req_headers := Map.empty\<rparr>)) = Inr 0"
    by (simp add: content_length_def)
  from c request_overflow [OF rq p oversized_overflows, of cfg call_next w l]
    response_overflow [OF e rs p oversized_overflows, of cfg w l]
  show ?thesis by (intro conjI) (elim conjE, assumption)+
qed

section \<open>Properties of the logger and its formatters\<close>

lemma dict_update_map_of: "map_of (dict_update d kvs) = map_of d ++ map_of (rev kvs)"
  unfolding dict_update_def
proof (induction kvs arbitrary: d)
  case Nil
  then show ?case by simp
next
  case (Cons kv kvs)
  have "map_of (foldl (\<lambda>d kv. AList.update (fst kv) (snd kv) d) d (kv # kvs)) =
        map_of (AList.update (fst kv) (snd kv) d) ++ map_of (rev kvs)"
    using Cons.IH [of "AList.update (fst kv) (snd kv) d"] by simp
  also have "\<dots> = map_of d ++ map_of (rev (kv # kvs))"
    by (cases kv) (simp add: update_conv' map_add_upd_left fun_eq_iff map_add_def split: option.split)
  finally show ?case .
qed

lemma map_of_rev_distinct: "distinct (map fst kvs) \<Longrightarrow> map_of (rev kvs) = map_of kvs"
  by (metis distinct_rev map_of_inject_set rev_map set_rev)

lemma map_of_filter_fst:
  "map_of (filter (\<lambda>kv. P (fst kv)) kvs) k = (if P k then map_of kvs k else None)"
  by (induction kvs) auto


lemma fst_set_dict_update:
  "fst ` set (dict_update d kvs) = fst ` set d \<union> fst ` set kvs"
proof -
  have "fst ` set (dict_update d kvs) = dom (map_of (dict_update d kvs))"
    by (simp add: dom_map_of_conv_image_fst)
  also have "\<dots> = dom (map_of d) \<union> dom (map_of (rev kvs))"
    by (simp add: dict_update_map_of Un_commute)
  finally show ?thesis by (simp add: dom_map_of_conv_image_fst)
qed

lemma merge_map_of:
  "map_of (merge_record_extra record target) k =
     (if k \<notin> set (required_fields @ LogRecord_attrs) \<and> \<not> startswith_underscore k
      then (case map_of (rev (rec_extra record)) k of
              None \<Rightarrow> map_of target k
            | Some v \<Rightarrow> Some v)
      else map_of target k)"
proof -
  define P where "P = (\<lambda>k. k \<notin> set (required_fields @ LogRecord_attrs) \<and> \<not> startswith_underscore k)"
  have m: "merge_record_extra record target =
           dict_update target (filter (\<lambda>kv. P (fst kv)) (rec_extra record))"
    by (simp add: merge_record_extra_def P_def)
  have "map_of (rev (filter (\<lambda>kv. P (fst kv)) (rec_extra record))) k =
        (if P k then map_of (rev (rec_extra record)) k else None)"
    using map_of_filter_fst [of P "rev (rec_extra record)" k] by (simp add: rev_filter)
  then have "map_of (merge_record_extra record target) k =
        (if P k then (case map_of (rev (rec_extra record)) k of
                        None \<Rightarrow> map_of target k | Some v \<Rightarrow> Some v)
         else map_of target k)"
    by (simp add: m dict_update_map_of map_add_def)
  then show ?thesis by (simp add: P_def)
qed

lemma jsonlogger_map_of:
  "map_of (jsonlogger_add_fields record md []) k =
     (if k \<notin> set (required_fields @ LogRecord_attrs) \<and> \<not> startswith_underscore k
      then (case map_of (rev (rec_extra record)) k of
              None \<Rightarrow> map_of (rev md) k
            | Some v \<Rightarrow> Some v)
      else (case map_of (rev md) k of
              None \<Rightarrow> if k \<in> set required_fields then Some (record_get record k) else None
            | Some v \<Rightarrow> Some v))"
  by (simp add: jsonlogger_add_fields_def Let_def merge_map_of dict_update_map_of
      map_add_def required_fields_def update_conv' split: option.split)

lemma custom_map_of:
  "map_of (CustomJsonFormatter_add_fields cfg tid record md []) k =
     (if k = ''function'' then Some (JStr (rec_funcName record))
      else if k = ''line'' then Some (JInt (int (rec_lineno record)))
      else if k = ''file'' then Some (JStr (rec_filename record))
      else if k = ''logger'' then Some (JStr (rec_name record))
      else if k = ''level'' then Some (JStr (levelname (rec_level record)))
      else if k = ''trace_id'' \<and> tid \<noteq> None \<and> tid \<noteq> Some [] then Some (JStr (the tid))
      else if k = ''version'' then Some (JStr (APP_VERSION cfg))
      else if k = ''environment'' then Some (JStr (ENVIRONMENT cfg))
      else if k = ''service'' then Some (JStr (SERVICE_NAME cfg))
      else if k = ''timestamp''
        then Some (JStr (strftime cfg ''%Y-%m-%dT%H:%M:%S.%fZ'' (rec_created record)))
      else map_of (jsonlogger_add_fields record md []) k)"
  by (simp add: CustomJsonFormatter_add_fields_def Let_def update_conv' split: option.split)

lemma md_lookup:
  "map_of (rev (case exc of None \<Rightarrow> [] | Some e \<Rightarrow> [(''exc_info'', v e)])) k =
     (if k = ''exc_info'' then map_option v exc else None)"
  by (cases exc) auto

lemma fmt_level:
  "emitted_level (formatter_format cfg tid record) = Some (JStr (levelname (rec_level record)))"
  by (simp add: formatter_format_def custom_map_of)

lemma fmt_message:
  "emitted_message (formatter_format cfg tid record) = Some (JStr (rec_message record))"
  by (simp add: formatter_format_def custom_map_of jsonlogger_map_of md_lookup
      required_fields_def record_get_def)

lemma fmt_trace_id:
  "ENVIRONMENT cfg \<noteq> ''development'' \<Longrightarrow> t \<noteq> [] \<Longrightarrow>
   emitted_field (formatter_format cfg (Some t) record) ''trace_id'' = Some (JStr t)"
  by (simp add: formatter_format_def custom_map_of)

lemma fmt_caller_field:
  "ENVIRONMENT cfg \<noteq> ''development'' \<Longrightarrow>
   k \<notin> {''function'', ''line'', ''file'', ''logger'', ''level'', ''trace_id'', ''version'',
         ''environment'', ''service'', ''timestamp'', ''message'', ''exc_info''} \<Longrightarrow>
   k \<notin> set LogRecord_attrs \<Longrightarrow> \<not> startswith_underscore k \<Longrightarrow>
   emitted_field (formatter_format cfg tid record) k = map_of (rev (rec_extra record)) k"
  by (simp add: formatter_format_def custom_map_of jsonlogger_map_of md_lookup
      required_fields_def split: option.split)

lemma Logger_log_ok:
  "set (map fst extra) \<inter> set LogRecord_attrs = {} \<Longrightarrow>
   Logger_log cfg caller lvl msg extra exc w =
     (Inr (),
      if levelno lvl < levelno (LOG_LEVEL cfg) then w
      else w\<lparr>ticks := Suc (ticks w),
             stdout := stdout w @
               [formatter_format cfg (trace_id_var w)
                  (LogRecord_new cfg caller lvl msg extra exc (clock cfg (ticks w)))]\<rparr>)"
proof -
  assume a: "set (map fst extra) \<inter> set LogRecord_attrs = {}"
  have "find (\<lambda>k. k \<in> set LogRecord_attrs) (map fst extra) = None"
    using a by (auto simp: find_None_iff)
  then show ?thesis
    by (simp add: Logger_log_def makeRecord_def time_time_def)
qed

lemma Logger_log_frame:
  "registry (snd (Logger_log cfg caller lvl msg extra exc w)) = registry w
   \<and> trace_id_var (snd (Logger_log cfg caller lvl msg extra exc w)) = trace_id_var w
   \<and> urandom_reads (snd (Logger_log cfg caller lvl msg extra exc w)) = urandom_reads w"
  by (simp add: Logger_log_def time_time_def split: sum.split)

section \<open>Properties of the logging middleware\<close>

lemma incoming_keys:
  "set (map fst [(''method'', a), (''path'', b), (''query_params'', c), (''client_ip'', d),
                 (''user_agent'', e)]) \<inter> set LogRecord_attrs = {}"
  by (simp add: LogRecord_attrs_def)

lemma completed_keys:
  "set (map fst [(''method'', a), (''path'', b), (''status_code'', c), (''duration_ms'', d)])
     \<inter> set LogRecord_attrs = {}"
  by (simp add: LogRecord_attrs_def)

lemma length_uuid_str: "length (uuid_str x) = 36"
  by (simp add: uuid_str_def hex32_def Let_def)

lemma generate_trace_id_nonempty: "fst (generate_trace_id cfg w) \<noteq> []"
  using length_uuid_str [of "uuid4 (urandom cfg (urandom_reads w))"]
  by (auto simp: generate_trace_id_def)

lemma entry_eq:
  assumes "tok = (case req_headers request ''x-trace-id'' of
                    None \<Rightarrow> fst (generate_trace_id cfg w)
                  | Some v \<Rightarrow> if v \<noteq> [] then v else fst (generate_trace_id cfg w))"
  shows "\<exists>w1. LoggingMiddleware_entry cfg request w = (Inr (tok, clock cfg (ticks w)), w1)
     \<and> trace_id_var w1 = Some tok
     \<and> registry w1 = registry w
     \<and> ticks w < ticks w1
     \<and> stdout w1 = stdout w @
         (if levelno INFO < levelno (LOG_LEVEL cfg) then []
          else [formatter_format cfg (Some tok)
                  (LogRecord_new cfg (''python-logging.py'', 162, ''dispatch'') INFO
                     ''Incoming request''
                     [(''method'', JStr (req_method request)),
                      (''path'', JStr (url_path request)),
                      (''query_params'', JDict (py_dict (query_params request))),
                      (''client_ip'', opt_str (client_host request)),
                      (''user_agent'', opt_str (req_headers request ''user-agent''))]
                     None (clock cfg (Suc (ticks w))))])"
  using assms
  by (simp add: LoggingMiddleware_entry_def Logger_log_ok [OF incoming_keys]
      generate_trace_id_def set_trace_id_def time_time_def Let_def
      split: option.split)

lemma resume_eq:
  "LoggingMiddleware_resume cfg request tok start_time response w2 =
     (Inr (response\<lparr>resp_headers := (resp_headers response)(''x-trace-id'' \<mapsto> tok)\<rparr>),
      let lvl = (if status_code response \<ge> 500 then ERROR
                 else if status_code response \<ge> 400 then WARNING else INFO);
          w3 = w2\<lparr>ticks := Suc (ticks w2)\<rparr>
      in if levelno lvl < levelno (LOG_LEVEL cfg) then w3
         else w3\<lparr>ticks := Suc (Suc (ticks w2)),
                 stdout := stdout w2 @
                   [formatter_format cfg (trace_id_var w2)
                     (LogRecord_new cfg (''python-logging.py'', 188, ''dispatch'') lvl
                        ''Request completed''
                        [(''method'', JStr (req_method request)),
                         (''path'', JStr (url_path request)),
                         (''status_code'', JInt (status_code response)),
                         (''duration_ms'',
                            JNum (float_round cfg (float_mul cfg (float_sub cfg (clock cfg (ticks w2)) (start_time)) 1000) 2))]
                        None (clock cfg (Suc (ticks w2))))]\<rparr>)"
  by (simp add: LoggingMiddleware_resume_def Logger_log_ok [OF completed_keys]
      time_time_def Let_def)

lemma dispatch_eq:
  assumes tok: "tok = (case req_headers request ''x-trace-id'' of
                    None \<Rightarrow> fst (generate_trace_id cfg w)
                  | Some v \<Rightarrow> if v \<noteq> [] then v else fst (generate_trace_id cfg w))"
    and cn: "call_next request (snd (LoggingMiddleware_entry cfg request w)) = (Inr response, w2)"
  shows "LoggingMiddleware_dispatch cfg request call_next w =
           LoggingMiddleware_resume cfg request tok (clock cfg (ticks w)) response w2"
proof -
  obtain w1 where e: "LoggingMiddleware_entry cfg request w = (Inr (tok, clock cfg (ticks w)), w1)"
    using entry_eq [OF tok] by blast
  show ?thesis using e cn by (simp add: LoggingMiddleware_dispatch_def)
qed

text \<open>
  C7 (severity of the completion log). When the handler returns a response, the
  middleware writes after the handler's output exactly one record, "Request completed",
  whose level is ERROR for a status of 500 or more, WARNING for 400 to 499 and INFO
  otherwise; the record is written unless \<^verbatim>\<open>LOG_LEVEL\<close> is above that level.
\<close>

theorem C7_completion_severity:
  assumes "call_next request (snd (LoggingMiddleware_entry cfg request w)) = (Inr response, w2)"
  shows "\<exists>out.
      emitted_level out =
        Some (JStr (if 500 \<le> status_code response then ''ERROR''
                    else if 400 \<le> status_code response then ''WARNING'' else ''INFO''))
    \<and> emitted_message out = Some (JStr ''Request completed'')
    \<and> stdout (snd (LoggingMiddleware_dispatch cfg request call_next w)) =
        stdout w2 @
          (if levelno (LOG_LEVEL cfg) \<le>
                (if 500 \<le> status_code response then 40
                 else if 400 \<le> status_code response then 30 else 20)
           then [out] else [])"
proof -
  define lvl where "lvl = (if status_code response \<ge> 500 then ERROR
                 else if status_code response \<ge> 400 then WARNING else INFO)"
  define out where "out = formatter_format cfg (trace_id_var w2)
     (LogRecord_new cfg (''python-logging.py'', 188, ''dispatch'') lvl ''Request completed''
        [(''method'', JStr (req_method request)),
         (''path'', JStr (url_path request)),
         (''status_code'', JInt (status_code response)),
         (''duration_ms'', JNum (float_round cfg (float_mul cfg (float_sub cfg (clock cfg (ticks w2)) (clock cfg (ticks w))) 1000) 2))]
        None (clock cfg (Suc (ticks w2))))"
  have d: "LoggingMiddleware_dispatch cfg request call_next w =
           LoggingMiddleware_resume cfg request
             (case req_headers request ''x-trace-id'' of
                    None \<Rightarrow> fst (generate_trace_id cfg w)
                  | Some v \<Rightarrow> if v \<noteq> [] then v else fst (generate_trace_id cfg w))
             (clock cfg (ticks w)) response w2"
    by (rule dispatch_eq [where call_next = call_next and request = request and cfg = cfg and w = w, OF refl assms])
  have l: "emitted_level out = Some (JStr (levelname lvl))"
    by (simp add: out_def fmt_level LogRecord_new_def)
  have m: "emitted_message out = Some (JStr ''Request completed'')"
    by (simp add: out_def fmt_message LogRecord_new_def)
  have s: "stdout (snd (LoggingMiddleware_dispatch cfg request call_next w)) =
        stdout w2 @ (if levelno lvl < levelno (LOG_LEVEL cfg) then [] else [out])"
    by (simp add: d resume_eq Let_def out_def lvl_def)
  have n: "levelno lvl = (if 500 \<le> status_code response then 40
                 else if 400 \<le> status_code response then 30 else 20)"
    by (simp add: lvl_def)
  have nm: "levelname lvl = (if 500 \<le> status_code response then ''ERROR''
                    else if 400 \<le> status_code response then ''WARNING'' else ''INFO'')"
    by (simp add: lvl_def)
  show ?thesis
    apply (rule exI [of _ out])
    using l m s n nm by (simp add: not_less)
qed

theorem C7_completion_severity_witness:
  "returns unavailable request0 (snd (LoggingMiddleware_entry env0 request0 world0)) =
     (Inr unavailable, snd (LoggingMiddleware_entry env0 request0 world0))
   \<and> (\<exists>out. emitted_level out = Some (JStr ''ERROR'')
        \<and> emitted_message out = Some (JStr ''Request completed'')
        \<and> stdout (snd (LoggingMiddleware_dispatch env0 request0 (returns unavailable) world0)) =
            stdout (snd (LoggingMiddleware_entry env0 request0 world0)) @ [out])"
proof -
  have h: "returns unavailable request0 (snd (LoggingMiddleware_entry env0 request0 world0)) =
     (Inr unavailable, snd (LoggingMiddleware_entry env0 request0 world0))"
    by (simp add: returns_def)
  from C7_completion_severity [where call_next = "returns unavailable" and request = request0
      and cfg = env0 and w = world0, OF h] h show ?thesis
    by (simp add: unavailable_def env0_def)
qed

lemma Logger_log_stdout:
  "\<exists>rs. stdout (snd (Logger_log cfg caller lvl msg extra exc w)) = stdout w @ rs
     \<and> (rs = [] \<or> (\<exists>record. rs = [formatter_format cfg (trace_id_var w) record]))"
  by (auto simp: Logger_log_def time_time_def split: sum.split)

text \<open>
  C2 (an inbound \<^verbatim>\<open>X-Trace-ID\<close> value appears in the log records of the request and in
  the response header; without one a fresh UUID does), refuted for the log records: with
  \<^verbatim>\<open>ENVIRONMENT=development\<close> the formatter is the four-part line, which has no place
  for the trace token. The request carries \<^verbatim>\<open>X-Trace-ID: abc-123\<close>; the two lines
  written are the time, the logger, the level and the message.
\<close>

theorem C2_trace_token_absent_from_development_log:
  "req_headers traced_request ''x-trace-id'' = Some ''abc-123''
   \<and> stdout (snd (LoggingMiddleware_dispatch (env0\<lparr>ENVIRONMENT := ''development''\<rparr>)
        traced_request (returns ok_response) world0)) =
       [TextLine ''%Y-%m-%d %H:%M:%S'' ''pluggedin-service'' ''INFO'' ''Incoming request'' None,
        TextLine ''%Y-%m-%d %H:%M:%S'' ''pluggedin-service'' ''INFO'' ''Request completed'' None]"
proof -
  have e: "\<exists>w1. LoggingMiddleware_entry (env0\<lparr>ENVIRONMENT := ''development''\<rparr>) traced_request world0 =
        (Inr (''abc-123'', clock (env0\<lparr>ENVIRONMENT := ''development''\<rparr>) (ticks world0)), w1)
      \<and> stdout w1 = [TextLine ''%Y-%m-%d %H:%M:%S'' ''pluggedin-service'' ''INFO'' ''Incoming request'' None]"
    using entry_eq [where cfg = "env0\<lparr>ENVIRONMENT := ''development''\<rparr>" and request = traced_request
        and w = world0 and tok = "''abc-123''"]
    by (auto simp: traced_request_def env0_def world0_def formatter_format_def LogRecord_new_def)
  then obtain w1 where w1: "LoggingMiddleware_entry (env0\<lparr>ENVIRONMENT := ''development''\<rparr>) traced_request world0 =
        (Inr (''abc-123'', clock (env0\<lparr>ENVIRONMENT := ''development''\<rparr>) (ticks world0)), w1)"
      and s1: "stdout w1 = [TextLine ''%Y-%m-%d %H:%M:%S'' ''pluggedin-service'' ''INFO'' ''Incoming request'' None]"
    by blast
  have "stdout (snd (LoggingMiddleware_dispatch (env0\<lparr>ENVIRONMENT := ''development''\<rparr>)
        traced_request (returns ok_response) world0)) =
       stdout w1 @ [TextLine ''%Y-%m-%d %H:%M:%S'' ''pluggedin-service'' ''INFO'' ''Request completed'' None]"
    using w1
    by (simp add: LoggingMiddleware_dispatch_def returns_def resume_eq Let_def
        ok_response_def env0_def formatter_format_def LogRecord_new_def)
  then show ?thesis using s1 by (simp add: traced_request_def)
qed

text \<open>
  C2 as amended: with the JSON formatter (any \<^verbatim>\<open>ENVIRONMENT\<close> but
  \<^verbatim>\<open>development\<close>). The token \<open>tok\<close> is the inbound header value when that is not
  empty and a fresh UUID string (36 characters) otherwise. It is bound before the
  "Incoming request" record is written; every record the middleware writes carries it
  as \<^verbatim>\<open>trace_id\<close>, and so does every record any log call writes while it is bound;
  when the handler returns, the response goes out with \<^verbatim>\<open>x-trace-id\<close> set to it. The
  handler is taken to leave the middleware's binding as it is (Starlette runs it in a
  task of its own, whose context is a copy).
\<close>

theorem C2_trace_token_propagated:
  assumes prod: "ENVIRONMENT cfg \<noteq> ''development''"
    and tok: "tok = (case req_headers request ''x-trace-id'' of
                       None \<Rightarrow> fst (generate_trace_id cfg w)
                     | Some v \<Rightarrow> if v \<noteq> [] then v else fst (generate_trace_id cfg w))"
    and cn: "call_next request (snd (LoggingMiddleware_entry cfg request w)) = (Inr response, w2)"
    and keep: "trace_id_var w2 = trace_id_var (snd (LoggingMiddleware_entry cfg request w))"
  shows "(\<forall>V. req_headers request ''x-trace-id'' = Some V \<and> V \<noteq> [] \<longrightarrow> tok = V)
    \<and> length (fst (generate_trace_id cfg w)) = 36
    \<and> trace_id_var (snd (LoggingMiddleware_entry cfg request w)) = Some tok
    \<and> (\<exists>pre post.
          stdout (snd (LoggingMiddleware_entry cfg request w)) = stdout w @ pre
        \<and> stdout (snd (LoggingMiddleware_dispatch cfg request call_next w)) = stdout w2 @ post
        \<and> length pre = (if levelno (LOG_LEVEL cfg) \<le> 20 then 1 else 0)
        \<and> length post = (if levelno (LOG_LEVEL cfg) \<le>
                             (if 500 \<le> status_code response then 40
                              else if 400 \<le> status_code response then 30 else 20)
                          then 1 else 0)
        \<and> list_all (\<lambda>out. emitted_field out ''trace_id'' = Some (JStr tok)) (pre @ post))
    \<and> fst (LoggingMiddleware_dispatch cfg request call_next w) =
        Inr (response\<lparr>resp_headers := (resp_headers response)(''x-trace-id'' \<mapsto> tok)\<rparr>)
    \<and> (\<forall>caller lvl msg extra exc w'. trace_id_var w' = Some tok \<longrightarrow>
          list_all (\<lambda>out. emitted_field out ''trace_id'' = Some (JStr tok))
            (drop (length (stdout w')) (stdout (snd (Logger_log cfg caller lvl msg extra exc w')))))"
proof -
  have ne: "tok \<noteq> []"
    using tok generate_trace_id_nonempty [of cfg w] by (auto split: option.splits if_splits)
  obtain w1 where e: "LoggingMiddleware_entry cfg request w = (Inr (tok, clock cfg (ticks w)), w1)"
    and t1: "trace_id_var w1 = Some tok"
    and s1: "stdout w1 = stdout w @
         (if levelno INFO < levelno (LOG_LEVEL cfg) then []
          else [formatter_format cfg (Some tok)
                  (LogRecord_new cfg (''python-logging.py'', 162, ''dispatch'') INFO
                     ''Incoming request''
                     [(''method'', JStr (req_method request)),
                      (''path'', JStr (url_path request)),
                      (''query_params'', JDict (py_dict (query_params request))),
                      (''client_ip'', opt_str (client_host request)),
                      (''user_agent'', opt_str (req_headers request ''user-agent''))]
                     None (clock cfg (Suc (ticks w))))])"
    using entry_eq [OF tok] by blast
  have t2: "trace_id_var w2 = Some tok" using keep e t1 by simp
  have d: "LoggingMiddleware_dispatch cfg request call_next w =
           LoggingMiddleware_resume cfg request tok (clock cfg (ticks w)) response w2"
    by (rule dispatch_eq [where call_next = call_next and request = request and cfg = cfg
          and w = w, OF tok cn])
  have c1: "\<forall>V. req_headers request ''x-trace-id'' = Some V \<and> V \<noteq> [] \<longrightarrow> tok = V"
    using tok by simp
  have c2: "length (fst (generate_trace_id cfg w)) = 36"
    by (simp add: generate_trace_id_def length_uuid_str)
  have c3: "trace_id_var (snd (LoggingMiddleware_entry cfg request w)) = Some tok"
    using e t1 by simp
  have c4: "\<exists>pre post.
          stdout (snd (LoggingMiddleware_entry cfg request w)) = stdout w @ pre
        \<and> stdout (snd (LoggingMiddleware_dispatch cfg request call_next w)) = stdout w2 @ post
        \<and> length pre = (if levelno (LOG_LEVEL cfg) \<le> 20 then 1 else 0)
        \<and> length post = (if levelno (LOG_LEVEL cfg) \<le>
                             (if 500 \<le> status_code response then 40
                              else if 400 \<le> status_code response then 30 else 20)
                          then 1 else 0)
        \<and> list_all (\<lambda>out. emitted_field out ''trace_id'' = Some (JStr tok)) (pre @ post)"
    using e s1 t2 prod ne
    by (auto simp: d resume_eq Let_def fmt_trace_id not_less)
  have c5: "fst (LoggingMiddleware_dispatch cfg request call_next w) =
        Inr (response\<lparr>resp_headers := (resp_headers response)(''x-trace-id'' \<mapsto> tok)\<rparr>)"
    by (simp add: d resume_eq)
  have c6: "\<forall>caller lvl msg extra exc w'. trace_id_var w' = Some tok \<longrightarrow>
          list_all (\<lambda>out. emitted_field out ''trace_id'' = Some (JStr tok))
            (drop (length (stdout w')) (stdout (snd (Logger_log cfg caller lvl msg extra exc w'))))"
  proof (intro allI impI)
    fix caller lvl msg extra exc and w' :: world
    assume b: "trace_id_var w' = Some tok"
    obtain rs where r: "stdout (snd (Logger_log cfg caller lvl msg extra exc w')) = stdout w' @ rs"
      and rr: "rs = [] \<or> (\<exists>record. rs = [formatter_format cfg (trace_id_var w') record])"
      using Logger_log_stdout [of cfg caller lvl msg extra exc w'] by blast
    from rr b prod ne have "list_all (\<lambda>out. emitted_field out ''trace_id'' = Some (JStr tok)) rs"
      by (auto simp: fmt_trace_id)
    then show "list_all (\<lambda>out. emitted_field out ''trace_id'' = Some (JStr tok))
            (drop (length (stdout w')) (stdout (snd (Logger_log cfg caller lvl msg extra exc w'))))"
      by (simp add: r)
  qed
  from c1 c2 c3 c4 c5 c6 show ?thesis by blast
qed

lemma uuid_zero: "uuid_str (uuid4 0) = ''00000000-0000-4000-8000-000000000000''"
  by code_simp

lemma gen0: "fst (generate_trace_id env0 world0) = ''00000000-0000-4000-8000-000000000000''"
  by (simp add: generate_trace_id_def env0_def world0_def uuid_zero)

theorem C2_trace_token_propagated_witness:
  "ENVIRONMENT env0 \<noteq> ''development''
   \<and> req_headers traced_request ''x-trace-id'' = Some ''abc-123''
   \<and> returns ok_response traced_request (snd (LoggingMiddleware_entry env0 traced_request world0)) =
       (Inr ok_response, snd (LoggingMiddleware_entry env0 traced_request world0))
   \<and> trace_id_var (snd (LoggingMiddleware_entry env0 traced_request world0)) = Some ''abc-123''
   \<and> fst (LoggingMiddleware_dispatch env0 traced_request (returns ok_response) world0) =
       Inr (ok_response\<lparr>resp_headers := (resp_headers ok_response)(''x-trace-id'' \<mapsto> ''abc-123'')\<rparr>)
   \<and> req_headers request0 ''x-trace-id'' = None
   \<and> trace_id_var (snd (LoggingMiddleware_entry env0 request0 world0)) =
       Some ''00000000-0000-4000-8000-000000000000''
   \<and> fst (LoggingMiddleware_dispatch env0 request0 (returns ok_response) world0) =
       Inr (ok_response\<lparr>resp_headers := (resp_headers ok_response)
              (''x-trace-id'' \<mapsto> ''00000000-0000-4000-8000-000000000000'')\<rparr>)"
proof -
  have p: "ENVIRONMENT env0 \<noteq> ''development''" by (simp add: env0_def)
  have h: "req_headers traced_request ''x-trace-id'' = Some ''abc-123''"
    by (simp add: traced_request_def)
  have t: "''abc-123'' = (case req_headers traced_request ''x-trace-id'' of
                       None \<Rightarrow> fst (generate_trace_id env0 world0)
                     | Some v \<Rightarrow> if v \<noteq> [] then v else fst (generate_trace_id env0 world0))"
    by (simp add: h)
  have c: "returns ok_response traced_request (snd (LoggingMiddleware_entry env0 traced_request world0)) =
       (Inr ok_response, snd (LoggingMiddleware_entry env0 traced_request world0))"
    by (simp add: returns_def)
  have h0: "req_headers request0 ''x-trace-id'' = None"
    by (simp add: request0_def)
  have t0: "''00000000-0000-4000-8000-000000000000'' =
       (case req_headers request0 ''x-trace-id'' of
                       None \<Rightarrow> fst (generate_trace_id env0 world0)
                     | Some v \<Rightarrow> if v \<noteq> [] then v else fst (generate_trace_id env0 world0))"
    by (simp add: h0 gen0)
  have c0: "returns ok_response request0 (snd (LoggingMiddleware_entry env0 request0 world0)) =
       (Inr ok_response, snd (LoggingMiddleware_entry env0 request0 world0))"
    by (simp add: returns_def)
  from C2_trace_token_propagated [where call_next = "returns ok_response"
        and request = traced_request and cfg = env0 and w = world0, OF p t c refl]
       C2_trace_token_propagated [where call_next = "returns ok_response"
        and request = request0 and cfg = env0 and w = world0, OF p t0 c0 refl]
       p h c h0
  show ?thesis by simp
qed

lemma metrics_entry_eq:
  "content_length (req_headers request) = Inr n \<Longrightarrow> n < float_overflow_bound \<Longrightarrow>
   fst (MetricsMiddleware_entry cfg request w) = Inr (clock cfg (ticks w))
   \<and> ticks (snd (MetricsMiddleware_entry cfg request w)) = Suc (ticks w)"
  by (simp add: MetricsMiddleware_entry_def time_time_def Let_def observe_int_eq)

lemma metrics_dispatch_eq:
  assumes "content_length (req_headers request) = Inr n"
    and "n < float_overflow_bound"
    and "call_next request (snd (MetricsMiddleware_entry cfg request w)) = (Inr response, w2)"
  shows "MetricsMiddleware_dispatch cfg request call_next w =
         MetricsMiddleware_resume cfg request (clock cfg (ticks w)) response w2"
proof -
  obtain r w1 where e: "MetricsMiddleware_entry cfg request w = (r, w1)"
    by (cases "MetricsMiddleware_entry cfg request w")
  have "r = Inr (clock cfg (ticks w))"
    using metrics_entry_eq [OF assms(1,2), of cfg w] e by simp
  then show ?thesis using e assms(3) by (simp add: MetricsMiddleware_dispatch_def)
qed

lemma fmt_duration_ms:
  "ENVIRONMENT cfg \<noteq> ''development'' \<Longrightarrow>
   map_of (rev extra) ''duration_ms'' = Some v \<Longrightarrow>
   emitted_field (formatter_format cfg tid (LogRecord_new cfg caller lvl msg extra exc created))
     ''duration_ms'' = Some v"
  using fmt_caller_field [of cfg "''duration_ms''" tid
      "LogRecord_new cfg caller lvl msg extra exc created"]
  by (simp add: LogRecord_attrs_def startswith_underscore_def LogRecord_new_def)

text \<open>
  C9 (order within one request). Logging middleware: what is written is, in this order,
  the "Incoming request" record, whatever the handler writes, the "Request completed"
  record (each of the two present when \<^verbatim>\<open>LOG_LEVEL\<close> admits its level), and the
  \<^verbatim>\<open>duration_ms\<close> of the JSON record is computed from the clock reading taken at
  entry, before the handler was given control. Metrics middleware: the handler is given
  a state in which the gauge is one above its value at entry and the decrement is
  applied to the state the handler returns; the observed duration is the reading taken
  after the handler returned minus the reading taken at entry (the float difference).
  The handlers are taken to return a response and to append to the output only, and the
  two \<^verbatim>\<open>content-length\<close> values to parse and to fit a float: otherwise the metrics
  middleware raises and never comes to the decrement or the duration.
\<close>

theorem C9_ordering_within_a_request:
  assumes cnL: "call_next request (snd (LoggingMiddleware_entry cfg request w)) = (Inr response, w2)"
    and appendL: "prefix (stdout (snd (LoggingMiddleware_entry cfg request w))) (stdout w2)"
    and cnM: "call_next' request (snd (MetricsMiddleware_entry cfg request wm)) = (Inr response', wm2)"
    and req_len: "content_length (req_headers request) = Inr n"
    and req_fits: "n < float_overflow_bound"
    and resp_len: "content_length (resp_headers response') = Inr k"
    and resp_fits: "k < float_overflow_bound"
  shows "(\<exists>pre mid post.
            stdout (snd (LoggingMiddleware_entry cfg request w)) = stdout w @ pre
          \<and> stdout (snd (LoggingMiddleware_dispatch cfg request call_next w)) =
              stdout w @ pre @ mid @ post
          \<and> list_all (\<lambda>out. emitted_message out = Some (JStr ''Incoming request'')) pre
          \<and> list_all (\<lambda>out. emitted_message out = Some (JStr ''Request completed'')) post
          \<and> length pre = (if levelno (LOG_LEVEL cfg) \<le> 20 then 1 else 0)
          \<and> length post = (if levelno (LOG_LEVEL cfg) \<le>
                               (if 500 \<le> status_code response then 40
                                else if 400 \<le> status_code response then 30 else 20)
                            then 1 else 0)
          \<and> (ENVIRONMENT cfg \<noteq> ''development'' \<longrightarrow>
               list_all (\<lambda>out. emitted_field out ''duration_ms'' =
                  Some (JNum (float_round cfg (float_mul cfg (float_sub cfg (clock cfg (ticks w2)) (clock cfg (ticks w))) 1000) 2))) post))
    \<and> ticks w < ticks (snd (LoggingMiddleware_entry cfg request w))
    \<and> series_value (active_requests (registry (snd (MetricsMiddleware_entry cfg request wm))))
          [SERVICE_NAME cfg] =
        series_value (active_requests (registry wm)) [SERVICE_NAME cfg] + 1
    \<and> series_value (active_requests (registry (snd
          (MetricsMiddleware_dispatch cfg request call_next' wm)))) [SERVICE_NAME cfg] =
        series_value (active_requests (registry wm2)) [SERVICE_NAME cfg] - 1
    \<and> ticks wm < ticks (snd (MetricsMiddleware_entry cfg request wm))
    \<and> http_request_duration (registry (snd
          (MetricsMiddleware_dispatch cfg request call_next' wm))) =
        observe (http_request_duration (registry wm2))
          [req_method request, url_path request, str_int (status_code response'),
           SERVICE_NAME cfg]
          (float_sub cfg (clock cfg (ticks wm2)) (clock cfg (ticks wm)))"
proof -
  define tok where "tok = (case req_headers request ''x-trace-id'' of
                       None \<Rightarrow> fst (generate_trace_id cfg w)
                     | Some v \<Rightarrow> if v \<noteq> [] then v else fst (generate_trace_id cfg w))"
  define pre where "pre = (if levelno INFO < levelno (LOG_LEVEL cfg) then []
          else [formatter_format cfg (Some tok)
                  (LogRecord_new cfg (''python-logging.py'', 162, ''dispatch'') INFO
                     ''Incoming request''
                     [(''method'', JStr (req_method request)),
                      (''path'', JStr (url_path request)),
                      (''query_params'', JDict (py_dict (query_params request))),
                      (''client_ip'', opt_str (client_host request)),
                      (''user_agent'', opt_str (req_headers request ''user-agent''))]
                     None (clock cfg (Suc (ticks w))))])"
  obtain w1 where e: "LoggingMiddleware_entry cfg request w = (Inr (tok, clock cfg (ticks w)), w1)"
    and k1: "ticks w < ticks w1"
    and s1: "stdout w1 = stdout w @ pre"
    using entry_eq [OF tok_def] unfolding pre_def by blast
  obtain mid where mid: "stdout w2 = stdout w1 @ mid"
    using appendL e by (auto simp: prefix_def)
  have d: "LoggingMiddleware_dispatch cfg request call_next w =
           LoggingMiddleware_resume cfg request tok (clock cfg (ticks w)) response w2"
    by (rule dispatch_eq [where call_next = call_next and request = request and cfg = cfg
          and w = w, OF tok_def cnL])
  define lvl where "lvl = (if status_code response \<ge> 500 then ERROR
                 else if status_code response \<ge> 400 then WARNING else INFO)"
  define done_rec where "done_rec = LogRecord_new cfg (''python-logging.py'', 188, ''dispatch'') lvl
        ''Request completed''
        [(''method'', JStr (req_method request)),
         (''path'', JStr (url_path request)),
         (''status_code'', JInt (status_code response)),
         (''duration_ms'', JNum (float_round cfg (float_mul cfg (float_sub cfg (clock cfg (ticks w2)) (clock cfg (ticks w))) 1000) 2))]
        None (clock cfg (Suc (ticks w2)))"
  define post where "post = (if levelno lvl < levelno (LOG_LEVEL cfg) then []
      else [formatter_format cfg (trace_id_var w2) done_rec])"
  have s3: "stdout (snd (LoggingMiddleware_dispatch cfg request call_next w)) = stdout w2 @ post"
    by (simp add: d resume_eq Let_def post_def done_rec_def lvl_def)
  have a1: "list_all (\<lambda>out. emitted_message out = Some (JStr ''Incoming request'')) pre"
    by (simp add: pre_def fmt_message LogRecord_new_def)
  have a2: "list_all (\<lambda>out. emitted_message out = Some (JStr ''Request completed'')) post"
    by (simp add: post_def done_rec_def fmt_message LogRecord_new_def)
  have a3: "length pre = (if levelno (LOG_LEVEL cfg) \<le> 20 then 1 else 0)"
    by (simp add: pre_def not_less)
  have a4: "length post = (if levelno (LOG_LEVEL cfg) \<le>
                               (if 500 \<le> status_code response then 40
                                else if 400 \<le> status_code response then 30 else 20)
                            then 1 else 0)"
    by (simp add: post_def lvl_def not_less)
  have a5: "ENVIRONMENT cfg \<noteq> ''development'' \<longrightarrow>
               list_all (\<lambda>out. emitted_field out ''duration_ms'' =
                  Some (JNum (float_round cfg (float_mul cfg (float_sub cfg (clock cfg (ticks w2)) (clock cfg (ticks w))) 1000) 2))) post"
    by (simp add: post_def done_rec_def fmt_duration_ms)
  have logs: "\<exists>pre mid post.
            stdout (snd (LoggingMiddleware_entry cfg request w)) = stdout w @ pre
          \<and> stdout (snd (LoggingMiddleware_dispatch cfg request call_next w)) =
              stdout w @ pre @ mid @ post
          \<and> list_all (\<lambda>out. emitted_message out = Some (JStr ''Incoming request'')) pre
          \<and> list_all (\<lambda>out. emitted_message out = Some (JStr ''Request completed'')) post
          \<and> length pre = (if levelno (LOG_LEVEL cfg) \<le> 20 then 1 else 0)
          \<and> length post = (if levelno (LOG_LEVEL cfg) \<le>
                               (if 500 \<le> status_code response then 40
                                else if 400 \<le> status_code response then 30 else 20)
                            then 1 else 0)
          \<and> (ENVIRONMENT cfg \<noteq> ''development'' \<longrightarrow>
               list_all (\<lambda>out. emitted_field out ''duration_ms'' =
                  Some (JNum (float_round cfg (float_mul cfg (float_sub cfg (clock cfg (ticks w2)) (clock cfg (ticks w))) 1000) 2))) post)"
    apply (rule exI [of _ pre], rule exI [of _ mid], rule exI [of _ post])
    using e s1 mid s3 a1 a2 a3 a4 a5 by simp
  have kl: "ticks w < ticks (snd (LoggingMiddleware_entry cfg request w))"
    using e k1 by simp
  have g1: "series_value (active_requests (registry (snd (MetricsMiddleware_entry cfg request wm))))
          [SERVICE_NAME cfg] =
        series_value (active_requests (registry wm)) [SERVICE_NAME cfg] + 1"
    by (simp add: entry_active_requests inc_value)
  have dm: "MetricsMiddleware_dispatch cfg request call_next' wm =
         MetricsMiddleware_resume cfg request (clock cfg (ticks wm)) response' wm2"
    by (rule metrics_dispatch_eq [where call_next = call_next', OF req_len req_fits cnM])
  have g2: "series_value (active_requests (registry (snd
          (MetricsMiddleware_dispatch cfg request call_next' wm)))) [SERVICE_NAME cfg] =
        series_value (active_requests (registry wm2)) [SERVICE_NAME cfg] - 1"
    by (simp add: dm resume_active_requests [OF resp_len resp_fits] dec_value)
  have km: "ticks wm < ticks (snd (MetricsMiddleware_entry cfg request wm))"
    using metrics_entry_eq [OF req_len req_fits, of cfg wm] by simp
  have du: "http_request_duration (registry (snd
          (MetricsMiddleware_dispatch cfg request call_next' wm))) =
        observe (http_request_duration (registry wm2))
          [req_method request, url_path request, str_int (status_code response'),
           SERVICE_NAME cfg]
          (float_sub cfg (clock cfg (ticks wm2)) (clock cfg (ticks wm)))"
    using resp_len resp_fits
    by (simp add: dm MetricsMiddleware_resume_def time_time_def Let_def observe_int_eq)
  from logs kl g1 g2 km du show ?thesis by blast
qed

theorem C9_ordering_within_a_request_witness:
  "returns ok_response request0 (snd (LoggingMiddleware_entry env0 request0 world0)) =
     (Inr ok_response, snd (LoggingMiddleware_entry env0 request0 world0))
   \<and> prefix (stdout (snd (LoggingMiddleware_entry env0 request0 world0)))
        (stdout (snd (LoggingMiddleware_entry env0 request0 world0)))
   \<and> returns ok_response request0 (snd (MetricsMiddleware_entry env0 request0 world0)) =
       (Inr ok_response, snd (MetricsMiddleware_entry env0 request0 world0))
   \<and> content_length (req_headers request0) = Inr 0
   \<and> 0 < float_overflow_bound
   \<and> content_length (resp_headers ok_response) = Inr 0
   \<and> ticks world0 < ticks (snd (LoggingMiddleware_entry env0 request0 world0))
   \<and> series_value (active_requests (registry (snd (MetricsMiddleware_entry env0 request0 world0))))
        [SERVICE_NAME env0] =
      series_value (active_requests (registry world0)) [SERVICE_NAME env0] + 1
   \<and> series_value (active_requests (registry (snd
        (MetricsMiddleware_dispatch env0 request0 (returns ok_response) world0)))) [SERVICE_NAME env0] =
      series_value (active_requests (registry (snd (MetricsMiddleware_entry env0 request0 world0))))
        [SERVICE_NAME env0] - 1"
proof -
  have a: "returns ok_response request0 (snd (LoggingMiddleware_entry env0 request0 world0)) =
     (Inr ok_response, snd (LoggingMiddleware_entry env0 request0 world0))"
    by (simp add: returns_def)
  have b: "prefix (stdout (snd (LoggingMiddleware_entry env0 request0 world0)))
        (stdout (snd (LoggingMiddleware_entry env0 request0 world0)))"
    by simp
  have c: "returns ok_response request0 (snd (MetricsMiddleware_entry env0 request0 world0)) =
       (Inr ok_response, snd (MetricsMiddleware_entry env0 request0 world0))"
    by (simp add: returns_def)
  have d: "content_length (req_headers request0) = Inr 0"
    by (simp add: content_length_def request0_def)
  have e: "content_length (resp_headers ok_response) = Inr 0"
    by (simp add: content_length_def ok_response_def)
  have f: "0 < float_overflow_bound"
    by (simp add: float_overflow_bound_def)
  from C9_ordering_within_a_request [where call_next = "returns ok_response"
      and call_next' = "returns ok_response" and request = request0 and cfg = env0
      and w = world0 and wm = world0, OF a b c d f e f] a b c d e f
  show ?thesis by simp
qed

section \<open>The schema of a production record\<close>





section \<open>Properties of the wrapping helpers\<close>

lemma keys_dict_update:
  "set (map fst d) \<inter> set LogRecord_attrs = {} \<Longrightarrow>
   set (map fst kvs) \<inter> set LogRecord_attrs = {} \<Longrightarrow>
   set (map fst (dict_update d kvs)) \<inter> set LogRecord_attrs = {}"
  using fst_set_dict_update [of d kvs] by (auto simp: image_iff)

lemma distinct_dict_update:
  "distinct (map fst d) \<Longrightarrow> distinct (map fst (dict_update d kvs))"
  unfolding dict_update_def
  by (induction kvs arbitrary: d) (simp_all add: distinct_update)

lemma map_of_dict_update_distinct:
  "distinct (map fst d) \<Longrightarrow>
   map_of (rev (dict_update d kvs)) = map_of d ++ map_of (rev kvs)"
  by (simp add: map_of_rev_distinct distinct_dict_update dict_update_map_of)

lemma pair_eqI: "fst p = a \<Longrightarrow> p = (a, snd p)"
  by (cases p) simp

lemma debug_disabled: "10 < levelno (LOG_LEVEL cfg) \<longleftrightarrow> LOG_LEVEL cfg \<noteq> DEBUG"
  by (cases "LOG_LEVEL cfg") simp_all

text \<open>The record of a failure, under either formatter.\<close>

lemma failure_record:
  assumes keys: "set (map fst c) \<inter> set LogRecord_attrs = {}"
    and dist: "distinct (map fst c)"
    and fr: "fr = formatter_format cfg tid
        (LogRecord_new cfg caller ERROR msg
           (dict_update c [(''duration_ms'', JNum D), (''status'', JStr ''error''),
                           (''error'', JStr E), (''error_type'', JStr T)])
           (Some e) created)"
  shows "emitted_level fr = Some (JStr ''ERROR'')
     \<and> emitted_message fr = Some (JStr msg)
     \<and> (ENVIRONMENT cfg \<noteq> ''development'' \<longrightarrow>
           emitted_field fr ''error'' = Some (JStr E)
         \<and> emitted_field fr ''error_type'' = Some (JStr T)
         \<and> emitted_field fr ''duration_ms'' = Some (JNum D))
     \<and> (ENVIRONMENT cfg = ''development'' \<longrightarrow>
           fr = TextLine (strftime cfg ''%Y-%m-%d %H:%M:%S'' created) (SERVICE_NAME cfg)
                  ''ERROR'' msg (Some (formatException cfg e)))"
proof -
  define x where "x = dict_update c [(''duration_ms'', JNum D), (''status'', JStr ''error''),
                            (''error'', JStr E), (''error_type'', JStr T)]"
  have mx: "map_of (rev x) = map_of c ++ map_of (rev [(''duration_ms'', JNum D),
       (''status'', JStr ''error''), (''error'', JStr E), (''error_type'', JStr T)])"
    unfolding x_def by (rule map_of_dict_update_distinct [OF dist])
  define r where "r = LogRecord_new cfg caller ERROR msg x (Some e) created"
  have rx: "rec_extra r = x" "rec_level r = ERROR" "rec_message r = msg"
    "rec_name r = SERVICE_NAME cfg" "rec_created r = created" "rec_exc_info r = Some e"
    by (simp_all add: r_def LogRecord_new_def)
  have f: "fr = formatter_format cfg tid r"
    by (simp add: fr r_def x_def)
  have j: "ENVIRONMENT cfg \<noteq> ''development'' \<Longrightarrow>
         emitted_field fr ''error'' = Some (JStr E)
       \<and> emitted_field fr ''error_type'' = Some (JStr T)
       \<and> emitted_field fr ''duration_ms'' = Some (JNum D)"
    unfolding f
    using fmt_caller_field [of cfg "''error''" tid r]
      fmt_caller_field [of cfg "''error_type''" tid r]
      fmt_caller_field [of cfg "''duration_ms''" tid r]
    by (simp add: rx mx LogRecord_attrs_def startswith_underscore_def)
  have d: "ENVIRONMENT cfg = ''development'' \<Longrightarrow>
           fr = TextLine (strftime cfg ''%Y-%m-%d %H:%M:%S'' created) (SERVICE_NAME cfg)
                  ''ERROR'' msg (Some (formatException cfg e))"
    unfolding f by (simp add: formatter_format_def rx)
  have l: "emitted_level fr = Some (JStr ''ERROR'')"
    unfolding f by (simp add: fmt_level rx)
  have m: "emitted_message fr = Some (JStr msg)"
    unfolding f by (simp add: fmt_message rx)
  from l m j d show ?thesis by blast
qed

lemma start_record:
  "emitted_level (formatter_format cfg tid (LogRecord_new cfg caller DEBUG msg c exc created)) =
     Some (JStr ''DEBUG'')
   \<and> emitted_message (formatter_format cfg tid (LogRecord_new cfg caller DEBUG msg c exc created)) =
     Some (JStr msg)"
  by (simp add: fmt_level fmt_message LogRecord_new_def)

text \<open>The two log calls of the failure path, once the keys are known to be harmless.\<close>

lemma start_call:
  assumes keys: "set (map fst c) \<inter> set LogRecord_attrs = {}"
  shows "Logger_log cfg caller DEBUG msg c None (w\<lparr>ticks := Suc (ticks w)\<rparr>) =
     (Inr (),
      if LOG_LEVEL cfg = DEBUG
      then w\<lparr>ticks := Suc (Suc (ticks w)),
             stdout := stdout w @
               [formatter_format cfg (trace_id_var w)
                  (LogRecord_new cfg caller DEBUG msg c None (clock cfg (Suc (ticks w))))]\<rparr>
      else w\<lparr>ticks := Suc (ticks w)\<rparr>)"
  by (simp add: Logger_log_ok [OF keys] debug_disabled)

lemma fail_call:
  assumes keys: "set (map fst c) \<inter> set LogRecord_attrs = {}"
  shows "Logger_log cfg caller ERROR msg
           (dict_update c [(''duration_ms'', a), (''status'', b), (''error'', d),
                           (''error_type'', t)])
           exc (w\<lparr>ticks := Suc (ticks w)\<rparr>) =
     (Inr (),
      if levelno (LOG_LEVEL cfg) \<le> 40
      then w\<lparr>ticks := Suc (Suc (ticks w)),
             stdout := stdout w @
               [formatter_format cfg (trace_id_var w)
                  (LogRecord_new cfg caller ERROR msg
                     (dict_update c [(''duration_ms'', a), (''status'', b), (''error'', d),
                                     (''error_type'', t)])
                     exc (clock cfg (Suc (ticks w))))]\<rparr>
      else w\<lparr>ticks := Suc (ticks w)\<rparr>)"
proof -
  have k: "set (map fst (dict_update c [(''duration_ms'', a), (''status'', b), (''error'', d),
                           (''error_type'', t)])) \<inter> set LogRecord_attrs = {}"
    by (rule keys_dict_update [OF keys]) (simp add: LogRecord_attrs_def)
  show ?thesis
    by (simp add: Logger_log_ok [OF k] not_less)
qed

lemma wrapper_body_raise:
  assumes keys: "set (map fst default_context) \<inter> set LogRecord_attrs = {}"
    and c: "c = dict_update default_context [(''operation'', JStr operation)]"
    and start_rec: "start_rec = formatter_format cfg (trace_id_var w)
        (LogRecord_new cfg (''python-logging.py'', l_start, fname) DEBUG
           (''Starting '' @ operation) c None (clock cfg (Suc (ticks w))))"
    and w1: "w1 = (if LOG_LEVEL cfg = DEBUG
                   then w\<lparr>ticks := Suc (Suc (ticks w)), stdout := stdout w @ [start_rec]\<rparr>
                   else w\<lparr>ticks := Suc (ticks w)\<rparr>)"
    and raised: "func w1 = (Inl e, w2)"
    and fail_rec: "fail_rec = formatter_format cfg (trace_id_var w2)
        (LogRecord_new cfg (''python-logging.py'', l_fail, fname) ERROR
           (''Failed '' @ operation)
           (dict_update c
              [(''duration_ms'', JNum (float_round cfg (float_mul cfg
                  (float_sub cfg (clock cfg (ticks w2)) (clock cfg (ticks w))) 1000) 2)),
               (''status'', JStr ''error''),
               (''error'', JStr (exc_str e)),
               (''error_type'', JStr (exc_type_name e))])
           (Some e) (clock cfg (Suc (ticks w2))))"
  shows "wrapper_body cfg fname l_start l_done l_fail operation default_context func w =
     (Inl e,
      if exc_is_Exception e
      then if levelno (LOG_LEVEL cfg) \<le> 40
           then w2\<lparr>ticks := Suc (Suc (ticks w2)), stdout := stdout w2 @ [fail_rec]\<rparr>
           else w2\<lparr>ticks := Suc (ticks w2)\<rparr>
      else w2)"
proof -
  have kc: "set (map fst c) \<inter> set LogRecord_attrs = {}"
    unfolding c by (rule keys_dict_update [OF keys]) (simp add: LogRecord_attrs_def)
  have s: "Logger_log cfg (''python-logging.py'', l_start, fname) DEBUG
       (''Starting '' @ operation) c None (w\<lparr>ticks := Suc (ticks w)\<rparr>) = (Inr (), w1)"
    unfolding w1 start_rec by (rule start_call [OF kc])
  have f: "Logger_log cfg (''python-logging.py'', l_fail, fname) ERROR
        (''Failed '' @ operation)
        (dict_update c
           [(''duration_ms'', JNum (float_round cfg (float_mul cfg
                  (float_sub cfg (clock cfg (ticks w2)) (clock cfg (ticks w))) 1000) 2)),
            (''status'', JStr ''error''),
            (''error'', JStr (exc_str e)),
            (''error_type'', JStr (exc_type_name e))])
        (Some e) (w2\<lparr>ticks := Suc (ticks w2)\<rparr>) =
      (Inr (),
       if levelno (LOG_LEVEL cfg) \<le> 40
       then w2\<lparr>ticks := Suc (Suc (ticks w2)), stdout := stdout w2 @ [fail_rec]\<rparr>
       else w2\<lparr>ticks := Suc (ticks w2)\<rparr>)"
    unfolding fail_rec by (rule fail_call [OF kc])
  show ?thesis
    unfolding wrapper_body_def time_time_def Let_def prod.case c [symmetric] s sum.case
      raised f
    by simp
qed

lemma with_Timer_raise:
  assumes keys: "set (map fst ctx) \<inter> set LogRecord_attrs = {}"
    and start_rec: "start_rec = formatter_format cfg (trace_id_var w)
        (LogRecord_new cfg (''python-logging.py'', 320, ''__enter__'') DEBUG
           (''Starting '' @ operation) ctx None (clock cfg (Suc (ticks w))))"
    and w1: "w1 = (if LOG_LEVEL cfg = DEBUG
                   then w\<lparr>ticks := Suc (Suc (ticks w)), stdout := stdout w @ [start_rec]\<rparr>
                   else w\<lparr>ticks := Suc (ticks w)\<rparr>)"
    and raised: "block w1 = (Inl e, w2)"
    and fail_rec: "fail_rec = formatter_format cfg (trace_id_var w2)
        (LogRecord_new cfg (''python-logging.py'', 336, ''__exit__'') ERROR
           (''Failed '' @ operation)
           (dict_update ctx
              [(''duration_ms'', JNum (float_round cfg (float_mul cfg
                  (float_sub cfg (clock cfg (ticks w2)) (clock cfg (ticks w))) 1000) 2)),
               (''status'', JStr ''error''),
               (''error'', JStr (exc_str e)),
               (''error_type'', JStr (exc_type_name e))])
           (Some e) (clock cfg (Suc (ticks w2))))"
  shows "with_Timer cfg operation ctx block w =
     (Inl e,
      if levelno (LOG_LEVEL cfg) \<le> 40
      then w2\<lparr>ticks := Suc (Suc (ticks w2)), stdout := stdout w2 @ [fail_rec]\<rparr>
      else w2\<lparr>ticks := Suc (ticks w2)\<rparr>)"
proof -
  have s: "Logger_log cfg (''python-logging.py'', 320, ''__enter__'') DEBUG
       (''Starting '' @ operation) ctx None (w\<lparr>ticks := Suc (ticks w)\<rparr>) = (Inr (), w1)"
    unfolding w1 start_rec by (rule start_call [OF keys])
  have f: "Logger_log cfg (''python-logging.py'', 336, ''__exit__'') ERROR
        (''Failed '' @ operation)
        (dict_update ctx
           [(''duration_ms'', JNum (float_round cfg (float_mul cfg
                  (float_sub cfg (clock cfg (ticks w2)) (clock cfg (ticks w))) 1000) 2)),
            (''status'', JStr ''error''),
            (''error'', JStr (exc_str e)),
            (''error_type'', JStr (exc_type_name e))])
        (Some e) (w2\<lparr>ticks := Suc (ticks w2)\<rparr>) =
      (Inr (),
       if levelno (LOG_LEVEL cfg) \<le> 40
       then w2\<lparr>ticks := Suc (Suc (ticks w2)), stdout := stdout w2 @ [fail_rec]\<rparr>
       else w2\<lparr>ticks := Suc (ticks w2)\<rparr>)"
    unfolding fail_rec by (rule fail_call [OF keys])
  have en: "Timer_enter cfg operation ctx w = (Inr (clock cfg (ticks w)), w1)"
    unfolding Timer_enter_def time_time_def Let_def prod.case s sum.case by (rule refl)
  have ex: "Timer_exit cfg operation ctx (clock cfg (ticks w)) (Some e) w2 =
      (Inr (),
       if levelno (LOG_LEVEL cfg) \<le> 40
       then w2\<lparr>ticks := Suc (Suc (ticks w2)), stdout := stdout w2 @ [fail_rec]\<rparr>
       else w2\<lparr>ticks := Suc (ticks w2)\<rparr>)"
    unfolding Timer_exit_def time_time_def Let_def prod.case option.case f by (rule refl)
  show ?thesis
    unfolding with_Timer_def en prod.case sum.case raised ex by simp
qed

lemma no_keys: "set (map fst ([] :: fields)) \<inter> set LogRecord_attrs = {}"
  by simp

text \<open>
  C6 (what the wrapping helpers do when the work raises), refuted in several of its
  parts. The operation \<^verbatim>\<open>database_query\<close> raises \<^verbatim>\<open>RuntimeError("boom")\<close> at the
  default configuration (\<^verbatim>\<open>LOG_LEVEL=INFO\<close>, JSON formatter): under
  \<^verbatim>\<open>log_execution\<close> and under \<^verbatim>\<open>Timer\<close> alike the exception comes back, the
  registry is still the empty one (these helpers record no metric at all), and the only
  record written is "Failed database_query" (the "Starting" call is a debug call, below
  the level). With \<^verbatim>\<open>ENVIRONMENT=development\<close> the record written is the line of
  time, logger name, level and message followed by the traceback, which has no duration.
  When the work raises \<^verbatim>\<open>asyncio.CancelledError\<close>, which is not an
  \<^verbatim>\<open>Exception\<close>, \<^verbatim>\<open>log_execution\<close> writes nothing. When the context has the key
  \<^verbatim>\<open>name\<close>, an attribute of every log record, the error call itself raises
  \<^verbatim>\<open>KeyError\<close>, which reaches the caller in place of the exception of the work.
\<close>

theorem C6_no_metric_and_no_start_record_at_default_level:
  "LOG_LEVEL env0 = INFO
   \<and> fst (log_execution env0 ''database_query'' [] False (fails boom :: unit action) world0) = Inl boom
   \<and> registry (snd (log_execution env0 ''database_query'' [] False
        (fails boom :: unit action) world0)) = registry0
   \<and> map emitted_message (stdout (snd (log_execution env0 ''database_query'' [] False
        (fails boom :: unit action) world0))) = [Some (JStr ''Failed database_query'')]
   \<and> fst (with_Timer env0 ''database_query'' [] (fails boom :: unit action) world0) = Inl boom
   \<and> registry (snd (with_Timer env0 ''database_query'' [] (fails boom :: unit action) world0)) =
       registry0
   \<and> map emitted_message (stdout (snd (with_Timer env0 ''database_query'' []
        (fails boom :: unit action) world0))) = [Some (JStr ''Failed database_query'')]
   \<and> stdout (snd (with_Timer (env0\<lparr>ENVIRONMENT := ''development''\<rparr>) ''database_query'' []
        (fails boom :: unit action) world0)) =
       [TextLine (strftime env0 ''%Y-%m-%d %H:%M:%S'' (clock env0 2)) ''pluggedin-service''
          ''ERROR'' ''Failed database_query'' (Some (formatException env0 boom))]
   \<and> fst (log_execution env0 ''database_query'' [] True (fails cancelled :: unit action) world0) =
       Inl cancelled
   \<and> stdout (snd (log_execution env0 ''database_query'' [] True
        (fails cancelled :: unit action) world0)) = []
   \<and> fst (with_Timer env0 ''database_query'' [(''name'', JStr ''users'')]
        (fails boom :: unit action) world0) =
       Inl (KeyError (py_repr (''Attempt to overwrite '' @ py_repr ''name'' @ '' in LogRecord'')))
   \<and> stdout (snd (with_Timer env0 ''database_query'' [(''name'', JStr ''users'')]
        (fails boom :: unit action) world0)) = []"
proof -
  have lv: "LOG_LEVEL env0 = INFO" by (simp add: env0_def)
  have lvd: "LOG_LEVEL (env0\<lparr>ENVIRONMENT := ''development''\<rparr>) = INFO" by (simp add: env0_def)
  have be: "exc_is_Exception boom" by (simp add: boom_def)
  have ce: "\<not> exc_is_Exception cancelled" by (simp add: cancelled_def)
  have f: "\<And>e s. (fails e :: unit action) s = (Inl e, s)" by (simp add: fails_def)
  have a: "log_execution env0 ''database_query'' [] False (fails boom :: unit action) world0 =
      (Inl boom, world0\<lparr>ticks := 3, stdout :=
         [formatter_format env0 None
            (LogRecord_new env0 (''python-logging.py'', 276, ''sync_wrapper'') ERROR
               (''Failed '' @ ''database_query'')
               (dict_update (dict_update [] [(''operation'', JStr ''database_query'')])
                  [(''duration_ms'', JNum (float_round env0 (float_mul env0
                      (float_sub env0 (clock env0 1) (clock env0 0)) 1000) 2)),
                   (''status'', JStr ''error''),
                   (''error'', JStr (exc_str boom)),
                   (''error_type'', JStr (exc_type_name boom))])
               (Some boom) (clock env0 2))]\<rparr>)"
    unfolding log_execution_def sync_wrapper_def
    using wrapper_body_raise [where cfg = env0 and fname = "''sync_wrapper''" and l_start = 260
        and l_done = 266 and l_fail = 276 and operation = "''database_query''" and w = world0
        and func = "fails boom :: unit action" and default_context = "[]",
        OF no_keys refl refl refl f refl]
    by (simp add: lv be world0_def numeral_2_eq_2 numeral_3_eq_3)
  have b: "with_Timer env0 ''database_query'' [] (fails boom :: unit action) world0 =
      (Inl boom, world0\<lparr>ticks := 3, stdout :=
         [formatter_format env0 None
            (LogRecord_new env0 (''python-logging.py'', 336, ''__exit__'') ERROR
               (''Failed '' @ ''database_query'')
               (dict_update []
                  [(''duration_ms'', JNum (float_round env0 (float_mul env0
                      (float_sub env0 (clock env0 1) (clock env0 0)) 1000) 2)),
                   (''status'', JStr ''error''),
                   (''error'', JStr (exc_str boom)),
                   (''error_type'', JStr (exc_type_name boom))])
               (Some boom) (clock env0 2))]\<rparr>)"
    using with_Timer_raise [where cfg = env0 and operation = "''database_query''"
        and w = world0 and block = "fails boom :: unit action" and ctx = "[]",
        OF no_keys refl refl f refl]
    by (simp add: lv world0_def numeral_2_eq_2 numeral_3_eq_3)
  have c: "with_Timer (env0\<lparr>ENVIRONMENT := ''development''\<rparr>) ''database_query'' []
        (fails boom :: unit action) world0 =
      (Inl boom, world0\<lparr>ticks := 3, stdout :=
         [TextLine (strftime env0 ''%Y-%m-%d %H:%M:%S'' (clock env0 2)) ''pluggedin-service''
          ''ERROR'' ''Failed database_query'' (Some (formatException env0 boom))]\<rparr>)"
    using with_Timer_raise [where cfg = "env0\<lparr>ENVIRONMENT := ''development''\<rparr>"
        and operation = "''database_query''"
        and w = world0 and block = "fails boom :: unit action" and ctx = "[]",
        OF no_keys refl refl f refl]
    by (simp add: lvd world0_def numeral_2_eq_2 numeral_3_eq_3 formatter_format_def
        LogRecord_new_def env0_def)
  have d: "log_execution env0 ''database_query'' [] True (fails cancelled :: unit action) world0 =
      (Inl cancelled, world0\<lparr>ticks := 1\<rparr>)"
    unfolding log_execution_def async_wrapper_def
    using wrapper_body_raise [where cfg = env0 and fname = "''async_wrapper''" and l_start = 225
        and l_done = 231 and l_fail = 241 and operation = "''database_query''" and w = world0
        and func = "fails cancelled :: unit action" and default_context = "[]",
        OF no_keys refl refl refl f refl]
    by (simp add: lv ce world0_def)
  have e: "with_Timer env0 ''database_query'' [(''name'', JStr ''users'')]
        (fails boom :: unit action) world0 =
      (Inl (KeyError (py_repr (''Attempt to overwrite '' @ py_repr ''name'' @ '' in LogRecord''))),
       world0\<lparr>ticks := 3\<rparr>)"
    by (simp add: with_Timer_def Timer_enter_def Timer_exit_def time_time_def Let_def
        Logger_log_def makeRecord_def lv f world0_def dict_update_def LogRecord_attrs_def)
  have a': "map emitted_message (stdout (snd (log_execution env0 ''database_query'' [] False
        (fails boom :: unit action) world0))) = [Some (JStr ''Failed database_query'')]"
    unfolding a by (simp add: fmt_message LogRecord_new_def)
  have b': "map emitted_message (stdout (snd (with_Timer env0 ''database_query'' []
        (fails boom :: unit action) world0))) = [Some (JStr ''Failed database_query'')]"
    unfolding b by (simp add: fmt_message LogRecord_new_def)
  have a'': "registry (snd (log_execution env0 ''database_query'' [] False
        (fails boom :: unit action) world0)) = registry0"
    unfolding a by (simp add: world0_def)
  have b'': "registry (snd (with_Timer env0 ''database_query'' [] (fails boom :: unit action) world0)) =
       registry0"
    unfolding b by (simp add: world0_def)
  show ?thesis
    unfolding a' b' a'' b''
    unfolding a b c d e
    by (simp add: lv world0_def)
qed

text \<open>
  C6 as amended. The context \<open>ctx\<close> is a dictionary (distinct keys) none of whose keys
  is an attribute of a log record, \<open>w\<close> is any state in which the helper is entered,
  and every state and record named below is given in full from \<open>w\<close>.

  \<^item> The debug call "Starting operation" is made before the work is invoked: the work
    runs in \<open>w1\<close> (\<open>t1\<close> for \<^verbatim>\<open>Timer\<close>), which is \<open>w\<close> after the clock reading at
    entry and, exactly when \<^verbatim>\<open>LOG_LEVEL\<close> is \<^verbatim>\<open>DEBUG\<close>, with the record
    \<open>start_rec\<close> (level DEBUG, message "Starting operation") appended to the output.
  \<^item> When the work, run in that state, raises \<open>e\<close> and leaves the state \<open>w2\<close>, the
    helper raises the same \<open>e\<close>. Its final state is \<open>w2\<close> with one more clock reading
    and, when \<^verbatim>\<open>LOG_LEVEL\<close> admits ERROR, one record \<open>fail_rec\<close> (level ERROR,
    message "Failed operation") appended after the output of the work; under
    \<^verbatim>\<open>log_execution\<close> this holds when \<open>e\<close> is an \<^verbatim>\<open>Exception\<close>, and otherwise the
    final state is \<open>w2\<close> itself (the handler is \<^verbatim>\<open>except Exception\<close>).
  \<^item> No metric is recorded: the registry at the end is the registry the work left.
  \<^item> With the JSON formatter (\<^verbatim>\<open>ENVIRONMENT\<close> other than \<^verbatim>\<open>development\<close>)
    \<open>fail_rec\<close> carries \<^verbatim>\<open>error\<close> (\<^verbatim>\<open>str(e)\<close>), \<^verbatim>\<open>error_type\<close> (the name of the
    type) and \<^verbatim>\<open>duration_ms\<close>, the time from the reading at entry to the reading after
    the work, in milliseconds, rounded to two places. With
    \<^verbatim>\<open>ENVIRONMENT=development\<close> it is the line of time, logger name, \<^verbatim>\<open>ERROR\<close>
    and "Failed operation" followed by the traceback of \<open>e\<close>, and nothing else.
\<close>

theorem C6_failure_is_logged_and_reraised:
  assumes keys: "set (map fst ctx) \<inter> set LogRecord_attrs = {}"
    and dist: "distinct (map fst ctx)"
    and site: "(fname, l_start, l_fail) =
        (if is_coroutine then (''async_wrapper'', 225, 241) else (''sync_wrapper'', 260, 276))"
    and c: "c = dict_update ctx [(''operation'', JStr operation)]"
    and start_rec: "start_rec = formatter_format cfg (trace_id_var w)
        (LogRecord_new cfg (''python-logging.py'', l_start, fname) DEBUG
           (''Starting '' @ operation) c None (clock cfg (Suc (ticks w))))"
    and w1: "w1 = (if LOG_LEVEL cfg = DEBUG
                   then w\<lparr>ticks := Suc (Suc (ticks w)), stdout := stdout w @ [start_rec]\<rparr>
                   else w\<lparr>ticks := Suc (ticks w)\<rparr>)"
    and raised: "func w1 = (Inl e, w2)"
    and fail_rec: "fail_rec = formatter_format cfg (trace_id_var w2)
        (LogRecord_new cfg (''python-logging.py'', l_fail, fname) ERROR
           (''Failed '' @ operation)
           (dict_update c
              [(''duration_ms'', JNum (float_round cfg (float_mul cfg
                  (float_sub cfg (clock cfg (ticks w2)) (clock cfg (ticks w))) 1000) 2)),
               (''status'', JStr ''error''),
               (''error'', JStr (exc_str e)),
               (''error_type'', JStr (exc_type_name e))])
           (Some e) (clock cfg (Suc (ticks w2))))"
    and t_start_rec: "t_start_rec = formatter_format cfg (trace_id_var w)
        (LogRecord_new cfg (''python-logging.py'', 320, ''__enter__'') DEBUG
           (''Starting '' @ operation) ctx None (clock cfg (Suc (ticks w))))"
    and t1: "t1 = (if LOG_LEVEL cfg = DEBUG
                   then w\<lparr>ticks := Suc (Suc (ticks w)), stdout := stdout w @ [t_start_rec]\<rparr>
                   else w\<lparr>ticks := Suc (ticks w)\<rparr>)"
    and t_raised: "block t1 = (Inl e', t2)"
    and t_fail_rec: "t_fail_rec = formatter_format cfg (trace_id_var t2)
        (LogRecord_new cfg (''python-logging.py'', 336, ''__exit__'') ERROR
           (''Failed '' @ operation)
           (dict_update ctx
              [(''duration_ms'', JNum (float_round cfg (float_mul cfg
                  (float_sub cfg (clock cfg (ticks t2)) (clock cfg (ticks w))) 1000) 2)),
               (''status'', JStr ''error''),
               (''error'', JStr (exc_str e')),
               (''error_type'', JStr (exc_type_name e'))])
           (Some e') (clock cfg (Suc (ticks t2))))"
  shows "log_execution cfg operation ctx is_coroutine func w =
       (Inl e,
        if exc_is_Exception e
        then if levelno (LOG_LEVEL cfg) \<le> 40
             then w2\<lparr>ticks := Suc (Suc (ticks w2)), stdout := stdout w2 @ [fail_rec]\<rparr>
             else w2\<lparr>ticks := Suc (ticks w2)\<rparr>
        else w2)
     \<and> with_Timer cfg operation ctx block w =
       (Inl e',
        if levelno (LOG_LEVEL cfg) \<le> 40
        then t2\<lparr>ticks := Suc (Suc (ticks t2)), stdout := stdout t2 @ [t_fail_rec]\<rparr>
        else t2\<lparr>ticks := Suc (ticks t2)\<rparr>)
     \<and> registry (snd (log_execution cfg operation ctx is_coroutine func w)) = registry w2
     \<and> registry (snd (with_Timer cfg operation ctx block w)) = registry t2
     \<and> emitted_level start_rec = Some (JStr ''DEBUG'')
     \<and> emitted_message start_rec = Some (JStr (''Starting '' @ operation))
     \<and> emitted_level t_start_rec = Some (JStr ''DEBUG'')
     \<and> emitted_message t_start_rec = Some (JStr (''Starting '' @ operation))
     \<and> emitted_level fail_rec = Some (JStr ''ERROR'')
     \<and> emitted_message fail_rec = Some (JStr (''Failed '' @ operation))
     \<and> emitted_level t_fail_rec = Some (JStr ''ERROR'')
     \<and> emitted_message t_fail_rec = Some (JStr (''Failed '' @ operation))
     \<and> (ENVIRONMENT cfg \<noteq> ''development'' \<longrightarrow>
           emitted_field fail_rec ''error'' = Some (JStr (exc_str e))
         \<and> emitted_field fail_rec ''error_type'' = Some (JStr (exc_type_name e))
         \<and> emitted_field fail_rec ''duration_ms'' =
             Some (JNum (float_round cfg (float_mul cfg
               (float_sub cfg (clock cfg (ticks w2)) (clock cfg (ticks w))) 1000) 2))
         \<and> emitted_field t_fail_rec ''error'' = Some (JStr (exc_str e'))
         \<and> emitted_field t_fail_rec ''error_type'' = Some (JStr (exc_type_name e'))
         \<and> emitted_field t_fail_rec ''duration_ms'' =
             Some (JNum (float_round cfg (float_mul cfg
               (float_sub cfg (clock cfg (ticks t2)) (clock cfg (ticks w))) 1000) 2)))
     \<and> (ENVIRONMENT cfg = ''development'' \<longrightarrow>
           fail_rec = TextLine (strftime cfg ''%Y-%m-%d %H:%M:%S'' (clock cfg (Suc (ticks w2))))
                        (SERVICE_NAME cfg) ''ERROR'' (''Failed '' @ operation)
                        (Some (formatException cfg e))
         \<and> t_fail_rec = TextLine (strftime cfg ''%Y-%m-%d %H:%M:%S'' (clock cfg (Suc (ticks t2))))
                        (SERVICE_NAME cfg) ''ERROR'' (''Failed '' @ operation)
                        (Some (formatException cfg e')))"
proof -
  have kc: "set (map fst c) \<inter> set LogRecord_attrs = {}"
    unfolding c by (rule keys_dict_update [OF keys]) (simp add: LogRecord_attrs_def)
  have dc: "distinct (map fst c)"
    unfolding c by (rule distinct_dict_update [OF dist])
  have wb: "wrapper_body cfg fname l_start l_done l_fail operation ctx func w =
       (Inl e,
        if exc_is_Exception e
        then if levelno (LOG_LEVEL cfg) \<le> 40
             then w2\<lparr>ticks := Suc (Suc (ticks w2)), stdout := stdout w2 @ [fail_rec]\<rparr>
             else w2\<lparr>ticks := Suc (ticks w2)\<rparr>
        else w2)" for l_done
    by (rule wrapper_body_raise [where func = func and ?w1.0 = w1 and ?w2.0 = w2 and e = e,
          OF keys c start_rec w1 raised fail_rec])
  have le: "log_execution cfg operation ctx is_coroutine func w =
       (Inl e,
        if exc_is_Exception e
        then if levelno (LOG_LEVEL cfg) \<le> 40
             then w2\<lparr>ticks := Suc (Suc (ticks w2)), stdout := stdout w2 @ [fail_rec]\<rparr>
             else w2\<lparr>ticks := Suc (ticks w2)\<rparr>
        else w2)"
  proof (cases is_coroutine)
    case True
    with site have s: "fname = ''async_wrapper''" "l_start = 225" "l_fail = 241" by simp_all
    show ?thesis
      using wb [of 231] by (simp add: log_execution_def async_wrapper_def True s)
  next
    case False
    with site have s: "fname = ''sync_wrapper''" "l_start = 260" "l_fail = 276" by simp_all
    show ?thesis
      using wb [of 266] by (simp add: log_execution_def sync_wrapper_def False s)
  qed
  have ti: "with_Timer cfg operation ctx block w =
       (Inl e',
        if levelno (LOG_LEVEL cfg) \<le> 40
        then t2\<lparr>ticks := Suc (Suc (ticks t2)), stdout := stdout t2 @ [t_fail_rec]\<rparr>
        else t2\<lparr>ticks := Suc (ticks t2)\<rparr>)"
    by (rule with_Timer_raise [where block = block and ?w1.0 = t1 and ?w2.0 = t2 and e = e',
          OF keys t_start_rec t1 t_raised t_fail_rec])
  have r1: "registry (snd (log_execution cfg operation ctx is_coroutine func w)) = registry w2"
    unfolding le by simp
  have r2: "registry (snd (with_Timer cfg operation ctx block w)) = registry t2"
    unfolding ti by simp
  have s1: "emitted_level start_rec = Some (JStr ''DEBUG'')
      \<and> emitted_message start_rec = Some (JStr (''Starting '' @ operation))"
    unfolding start_rec by (rule start_record)
  have s2: "emitted_level t_start_rec = Some (JStr ''DEBUG'')
      \<and> emitted_message t_start_rec = Some (JStr (''Starting '' @ operation))"
    unfolding t_start_rec by (rule start_record)
  note f1 = failure_record [OF kc dc fail_rec]
  note f2 = failure_record [OF keys dist t_fail_rec]
  from le ti r1 r2 s1 s2 f1 f2 show ?thesis by blast
qed

theorem C6_failure_is_logged_and_reraised_witness:
  "set (map fst [(''table'', JStr ''users'')]) \<inter> set LogRecord_attrs = {}
   \<and> distinct (map fst [(''table'', JStr ''users'')])
   \<and> ENVIRONMENT (env0\<lparr>LOG_LEVEL := DEBUG\<rparr>) \<noteq> ''development''
   \<and> fst (log_execution (env0\<lparr>LOG_LEVEL := DEBUG\<rparr>) ''database_query''
        [(''table'', JStr ''users'')] False (fails boom :: unit action) world0) = Inl boom
   \<and> registry (snd (log_execution (env0\<lparr>LOG_LEVEL := DEBUG\<rparr>) ''database_query''
        [(''table'', JStr ''users'')] False (fails boom :: unit action) world0)) = registry0
   \<and> map emitted_message (stdout (snd (log_execution (env0\<lparr>LOG_LEVEL := DEBUG\<rparr>)
        ''database_query'' [(''table'', JStr ''users'')] False
        (fails boom :: unit action) world0))) =
       [Some (JStr ''Starting database_query''), Some (JStr ''Failed database_query'')]
   \<and> emitted_field (last (stdout (snd (log_execution
        (env0\<lparr>LOG_LEVEL := DEBUG\<rparr>) ''database_query'' [(''table'', JStr ''users'')] False
        (fails boom :: unit action) world0)))) ''error_type'' = Some (JStr ''RuntimeError'')
   \<and> fst (with_Timer (env0\<lparr>LOG_LEVEL := DEBUG\<rparr>) ''database_query''
        [(''table'', JStr ''users'')] (fails boom :: unit action) world0) = Inl boom
   \<and> map emitted_message (stdout (snd (with_Timer (env0\<lparr>LOG_LEVEL := DEBUG\<rparr>)
        ''database_query'' [(''table'', JStr ''users'')]
        (fails boom :: unit action) world0))) =
       [Some (JStr ''Starting database_query''), Some (JStr ''Failed database_query'')]
   \<and> emitted_field (last (stdout (snd (with_Timer
        (env0\<lparr>LOG_LEVEL := DEBUG\<rparr>) ''database_query'' [(''table'', JStr ''users'')]
        (fails boom :: unit action) world0)))) ''error'' = Some (JStr ''boom'')
   \<and> ENVIRONMENT (env0\<lparr>ENVIRONMENT := ''development''\<rparr>) = ''development''
   \<and> stdout (snd (log_execution (env0\<lparr>ENVIRONMENT := ''development''\<rparr>) ''database_query''
        [(''table'', JStr ''users'')] True (fails boom :: unit action) world0)) =
       [TextLine (strftime env0 ''%Y-%m-%d %H:%M:%S'' (clock env0 2)) ''pluggedin-service''
          ''ERROR'' ''Failed database_query'' (Some (formatException env0 boom))]"
proof -
  have k: "set (map fst [(''table'', JStr ''users'')]) \<inter> set LogRecord_attrs = {}"
    by (simp add: LogRecord_attrs_def)
  have d: "distinct (map fst [(''table'', JStr ''users'')])" by simp
  have be: "exc_is_Exception boom" by (simp add: boom_def)
  have f: "\<And>s. (fails boom :: unit action) s = (Inl boom, s)" by (simp add: fails_def)
  have p: "ENVIRONMENT (env0\<lparr>LOG_LEVEL := DEBUG\<rparr>) \<noteq> ''development''"
    by (simp add: env0_def)
  have q: "ENVIRONMENT (env0\<lparr>ENVIRONMENT := ''development''\<rparr>) = ''development''"
    by simp
  have s: "(''sync_wrapper'', 260, 276) =
      (if False then (''async_wrapper'', 225, 241) else (''sync_wrapper'', 260 :: nat, 276 :: nat))"
    by simp
  have a: "(''async_wrapper'', 225, 241) =
      (if True then (''async_wrapper'', 225 :: nat, 241 :: nat) else (''sync_wrapper'', 260, 276))"
    by simp
  have prod: "fst (log_execution (env0\<lparr>LOG_LEVEL := DEBUG\<rparr>) ''database_query''
        [(''table'', JStr ''users'')] False (fails boom :: unit action) world0) = Inl boom
   \<and> registry (snd (log_execution (env0\<lparr>LOG_LEVEL := DEBUG\<rparr>) ''database_query''
        [(''table'', JStr ''users'')] False (fails boom :: unit action) world0)) = registry0
   \<and> map emitted_message (stdout (snd (log_execution (env0\<lparr>LOG_LEVEL := DEBUG\<rparr>)
        ''database_query'' [(''table'', JStr ''users'')] False
        (fails boom :: unit action) world0))) =
       [Some (JStr ''Starting database_query''), Some (JStr ''Failed database_query'')]
   \<and> emitted_field (last (stdout (snd (log_execution
        (env0\<lparr>LOG_LEVEL := DEBUG\<rparr>) ''database_query'' [(''table'', JStr ''users'')] False
        (fails boom :: unit action) world0)))) ''error_type'' = Some (JStr ''RuntimeError'')
   \<and> fst (with_Timer (env0\<lparr>LOG_LEVEL := DEBUG\<rparr>) ''database_query''
        [(''table'', JStr ''users'')] (fails boom :: unit action) world0) = Inl boom
   \<and> map emitted_message (stdout (snd (with_Timer (env0\<lparr>LOG_LEVEL := DEBUG\<rparr>)
        ''database_query'' [(''table'', JStr ''users'')]
        (fails boom :: unit action) world0))) =
       [Some (JStr ''Starting database_query''), Some (JStr ''Failed database_query'')]
   \<and> emitted_field (last (stdout (snd (with_Timer
        (env0\<lparr>LOG_LEVEL := DEBUG\<rparr>) ''database_query'' [(''table'', JStr ''users'')]
        (fails boom :: unit action) world0)))) ''error'' = Some (JStr ''boom'')"
    using C6_failure_is_logged_and_reraised [where cfg = "env0\<lparr>LOG_LEVEL := DEBUG\<rparr>"
        and operation = "''database_query''" and ctx = "[(''table'', JStr ''users'')]"
        and is_coroutine = False and w = world0
        and func = "fails boom :: unit action" and block = "fails boom :: unit action",
        OF k d s refl refl refl f refl refl refl f refl]
    apply (simp only: p simp_thms)
    apply (elim conjE)
    apply (simp add: be world0_def boom_def)
    done
  have lvd: "LOG_LEVEL (env0\<lparr>ENVIRONMENT := ''development''\<rparr>) = INFO"
    by (simp add: env0_def)
  have dev: "stdout (snd (log_execution (env0\<lparr>ENVIRONMENT := ''development''\<rparr>) ''database_query''
        [(''table'', JStr ''users'')] True (fails boom :: unit action) world0)) =
       [TextLine (strftime env0 ''%Y-%m-%d %H:%M:%S'' (clock env0 2)) ''pluggedin-service''
          ''ERROR'' ''Failed database_query'' (Some (formatException env0 boom))]"
    using C6_failure_is_logged_and_reraised [where cfg = "env0\<lparr>ENVIRONMENT := ''development''\<rparr>"
        and operation = "''database_query''" and ctx = "[(''table'', JStr ''users'')]"
        and is_coroutine = True and w = world0
        and func = "fails boom :: unit action" and block = "fails boom :: unit action",
        OF k d a refl refl refl f refl refl refl f refl]
    apply (simp only: q simp_thms)
    apply (elim conjE)
    apply (simp add: be lvd world0_def numeral_2_eq_2)
    apply (simp add: env0_def)
    done
  from k d p q prod dev show ?thesis by simp
qed

end
